theory Spec2Isabelle
  imports Complex_Main
begin

section \<open>Python strings\<close>

text \<open>
  A Python \<open>str\<close> is a sequence of Unicode code points; the sources use code points
  beyond Latin-1 (U+2022, U+20AC), so a string is a list of code points.
\<close>

type_synonym pystr = "nat list"

definition lit :: "string \<Rightarrow> pystr" where
  "lit s = map of_char s"

text \<open>\<open>str.isspace\<close> on one code point; the same set is what \<open>\s\<close> matches in \<open>re\<close>.\<close>

definition isspace :: "nat \<Rightarrow> bool" where
  "isspace c \<longleftrightarrow>
     (9 \<le> c \<and> c \<le> 13) \<or> (28 \<le> c \<and> c \<le> 32) \<or> c = 133 \<or> c = 160 \<or> c = 5760 \<or>
     (8192 \<le> c \<and> c \<le> 8202) \<or> c = 8232 \<or> c = 8233 \<or> c = 8239 \<or> c = 8287 \<or> c = 12288"

fun rstrip :: "pystr \<Rightarrow> pystr" where
  "rstrip [] = []"
| "rstrip (c # cs) = (if list_all isspace (c # cs) then [] else c # rstrip cs)"

definition strip :: "pystr \<Rightarrow> pystr" where
  "strip s = rstrip (dropWhile isspace s)"

definition startswith :: "pystr \<Rightarrow> pystr \<Rightarrow> bool" where
  "startswith s p \<longleftrightarrow> take (length p) s = p"

section \<open>Post-extraction normalisation (\<open>ResumeProcessor._clean_extracted_text\<close>)\<close>

text \<open>\<open>re.sub(r'\s+', ' ', text)\<close>: every maximal run of whitespace becomes one space.\<close>

function collapse_ws :: "pystr \<Rightarrow> pystr" where
  "collapse_ws [] = []"
| "collapse_ws (c # cs) =
     (if isspace c then 32 # collapse_ws (dropWhile isspace cs) else c # collapse_ws cs)"
  by pat_completeness auto
termination
  by (relation "measure length") (auto simp: length_dropWhile_le less_Suc_eq_le)

text \<open>\<open>re.sub(r'\x0c', '', text)\<close>.\<close>

definition remove_ff :: "pystr \<Rightarrow> pystr" where
  "remove_ff s = filter (\<lambda>c. c \<noteq> 12) s"

text \<open>
  \<open>re.sub\<close> of the bullet U+2022: the replacement literal of the source file is the three
  code points U+00E2, U+20AC, U+00A2.
\<close>

definition bullet_repl :: pystr where
  "bullet_repl = [226, 8364, 162]"

definition replace_bullet :: "pystr \<Rightarrow> pystr" where
  "replace_bullet s = concat (map (\<lambda>c. if c = 8226 then bullet_repl else [c]) s)"

text \<open>
  The section-header substitution, pattern \<open>\n\s*([A-Z][A-Z\s]{5,})\n\<close>. A match starts
  at a newline, skips the whitespace after it (greedy; the next character must be in
  \<open>A-Z\<close>, so no shorter skip can match), then takes the longest stretch of \<open>[A-Z\s]\<close>
  that has at least five characters and is followed by a newline. \<open>match_header\<close> gets
  the text after the first newline and gives the group and the number of characters
  the match takes from that text.
\<close>

definition is_AZ :: "nat \<Rightarrow> bool" where
  "is_AZ c \<longleftrightarrow> 65 \<le> c \<and> c \<le> 90"

definition hdr_char :: "nat \<Rightarrow> bool" where
  "hdr_char c \<longleftrightarrow> is_AZ c \<or> isspace c"

definition find_hdr_end :: "pystr \<Rightarrow> nat option" where
  "find_hdr_end run =
     (case filter (\<lambda>k. run ! k = 10) (rev [5..<length run]) of
        [] \<Rightarrow> None
      | k # _ \<Rightarrow> Some k)"

definition match_header :: "pystr \<Rightarrow> (pystr \<times> nat) option" where
  "match_header cs =
     (let w = length (takeWhile isspace cs) in
      case drop w cs of
        [] \<Rightarrow> None
      | h # r \<Rightarrow>
          if \<not> is_AZ h then None
          else (case find_hdr_end (takeWhile hdr_char r) of
                  None \<Rightarrow> None
                | Some k \<Rightarrow> Some (h # take k r, w + 1 + k + 1)))"

text \<open>
  \<open>str.title\<close> on a group: the group holds only \<open>A-Z\<close> and whitespace, so a letter
  is kept when it starts a word and lowered when it follows a letter.
\<close>

fun title_from :: "bool \<Rightarrow> pystr \<Rightarrow> pystr" where
  "title_from prev [] = []"
| "title_from prev (c # cs) =
     (if is_AZ c then (if prev then c + 32 else c) # title_from True cs
      else c # title_from False cs)"

definition title :: "pystr \<Rightarrow> pystr" where
  "title s = title_from False s"

definition hdr_repl :: "pystr \<Rightarrow> pystr" where
  "hdr_repl g = [10, 10] @ title g @ [10] @ replicate (length (title g)) 61 @ [10]"

fun sub_headers :: "pystr \<Rightarrow> pystr" where
  "sub_headers [] = []"
| "sub_headers (c # cs) =
     (if c = 10 then
        (case match_header cs of
           Some (g, n) \<Rightarrow> hdr_repl g @ sub_headers (drop n cs)
         | None \<Rightarrow> c # sub_headers cs)
      else c # sub_headers cs)"

text \<open>\<open>re.sub(r'\n{3,}', '\n\n', text)\<close>.\<close>

fun squeeze_nl :: "pystr \<Rightarrow> pystr" where
  "squeeze_nl [] = []"
| "squeeze_nl (c # cs) =
     (if c = 10 then
        (let n = length (takeWhile (\<lambda>x. x = 10) cs) in
         (if 2 \<le> n then [10, 10] else replicate (Suc n) 10) @ squeeze_nl (drop n cs))
      else c # squeeze_nl cs)"

definition clean_extracted_text :: "pystr \<Rightarrow> pystr" where
  "clean_extracted_text text =
     (if text = [] then []
      else
        let t1 = strip (collapse_ws text);
            t2 = remove_ff t1;
            t3 = replace_bullet t2;
            t4 = sub_headers t3;
            t5 = squeeze_nl t4
        in strip t5)"

text \<open>
  The shape of a normalised text: every whitespace character is a single space with a
  non-whitespace character after it, and the text does not start with whitespace.
\<close>

fun spaced :: "pystr \<Rightarrow> bool" where
  "spaced [] = True"
| "spaced (c # cs) =
     ((isspace c \<longrightarrow> c = 32 \<and> (case cs of [] \<Rightarrow> False | d # _ \<Rightarrow> \<not> isspace d)) \<and> spaced cs)"

fun wspaced :: "pystr \<Rightarrow> bool" where
  "wspaced [] = True"
| "wspaced (c # cs) =
     ((isspace c \<longrightarrow> c = 32 \<and> (case cs of [] \<Rightarrow> True | d # _ \<Rightarrow> \<not> isspace d)) \<and> wspaced cs)"

definition tidy :: "pystr \<Rightarrow> bool" where
  "tidy u \<longleftrightarrow> spaced u \<and> (case u of [] \<Rightarrow> True | c # _ \<Rightarrow> \<not> isspace c)"

section \<open>Document renderer (\<open>CVGenerator._create_docx\<close>, \<open>CVGenerator._create_pdf\<close>)\<close>

text \<open>\<open>str.split('\n')\<close>: the lines between newlines; a text with no newline is one line.\<close>

fun split_nl :: "pystr \<Rightarrow> pystr list" where
  "split_nl [] = [[]]"
| "split_nl (c # cs) =
     (if c = 10 then [] # split_nl cs
      else (case split_nl cs of [] \<Rightarrow> [[c]] | l # ls \<Rightarrow> (c # l) # ls))"

text \<open>
  A python-docx document is its list of paragraphs; a paragraph has a style and its runs
  (the font settings \<open>_add_heading\<close> puts on a heading's run are left out: they
  add no element). \<open>current_paragraph\<close> refers to a paragraph of the document, so it
  is an index into the list.
\<close>

datatype docx_style = Heading nat | ListBullet | Normal

record docx_paragraph =
  style :: docx_style
  runs :: "pystr list"

type_synonym docx_state = "docx_paragraph list \<times> nat option"

definition add_run :: "docx_paragraph list \<Rightarrow> nat \<Rightarrow> pystr \<Rightarrow> docx_paragraph list" where
  "add_run doc i t = doc[i := (doc ! i)\<lparr>runs := runs (doc ! i) @ [t]\<rparr>]"

definition add_heading :: "docx_paragraph list \<Rightarrow> pystr \<Rightarrow> nat \<Rightarrow> docx_paragraph list" where
  "add_heading doc t level = doc @ [\<lparr>style = Heading level, runs = [t]\<rparr>]"

definition docx_line :: "docx_state \<Rightarrow> pystr \<Rightarrow> docx_state" where
  "docx_line st raw =
     (let doc = fst st; current_paragraph = snd st; line = strip raw in
      if line = [] then (doc, None)
      else if startswith line (lit ''### '') then (add_heading doc (drop 4 line) 3, None)
      else if startswith line (lit ''## '') then (add_heading doc (drop 3 line) 2, None)
      else if startswith line (lit ''# '') then (add_heading doc (drop 2 line) 1, None)
      else if startswith line (lit ''- '') then
        (case current_paragraph of
           None \<Rightarrow>
             (add_run (doc @ [\<lparr>style = ListBullet, runs = []\<rparr>]) (length doc) (drop 2 line),
              Some (length doc))
         | Some i \<Rightarrow> (add_run doc i (drop 2 line), Some i))
      else
        (case current_paragraph of
           None \<Rightarrow>
             (add_run (doc @ [\<lparr>style = Normal, runs = []\<rparr>]) (length doc) line,
              Some (length doc))
         | Some i \<Rightarrow> (add_run doc i (32 # line), Some i)))"

definition create_docx :: "pystr \<Rightarrow> docx_paragraph list" where
  "create_docx markdown_content = fst (foldl docx_line ([], None) (split_nl markdown_content))"

text \<open>
  The reportlab story is the list \<open>elements\<close> of flowables. A bullet line becomes a
  paragraph in the normal style whose text starts with the bullet literal of the source
  file (the code points U+00E2, U+20AC, U+00A2) and a space.
\<close>

datatype pdf_style = Title | Heading2 | Heading3 | NormalSpaced

datatype flowable = Paragraph pystr pdf_style | Spacer nat nat

definition pdf_line :: "pystr \<Rightarrow> flowable list" where
  "pdf_line raw =
     (let line = strip raw in
      if line = [] then [Spacer 1 12]
      else
        (if startswith line (lit ''### '') then
           [Paragraph (lit ''<b>'' @ drop 4 line @ lit ''</b>'') Heading3]
         else if startswith line (lit ''## '') then
           [Paragraph (lit ''<u>'' @ drop 3 line @ lit ''</u>'') Heading2]
         else if startswith line (lit ''# '') then [Paragraph (drop 2 line) Title]
         else if startswith line (lit ''- '') then
           [Paragraph (bullet_repl @ [32] @ drop 2 line) NormalSpaced]
         else [Paragraph line NormalSpaced])
        @ [Spacer 1 6])"

definition create_pdf :: "pystr \<Rightarrow> flowable list" where
  "create_pdf markdown_content = concat (map pdf_line (split_nl markdown_content))"

text \<open>
  Counting structural elements. In the DOCX document a list item is a paragraph in the
  \<open>List Bullet\<close> style, whatever the number of its runs: the text of a paragraph is
  the concatenation of its runs, with nothing between them. A list is a block of
  consecutive list items. The PDF story has no list container either: an item is a
  bullet paragraph, and a list is a block of bullet paragraphs that only the spacer
  after each line separates.
\<close>

definition docx_headings :: "nat \<Rightarrow> docx_paragraph list \<Rightarrow> nat" where
  "docx_headings level doc = length (filter (\<lambda>p. style p = Heading level) doc)"

definition paragraph_text :: "docx_paragraph \<Rightarrow> pystr" where
  "paragraph_text p = concat (runs p)"

definition docx_items :: "docx_paragraph list \<Rightarrow> pystr list" where
  "docx_items doc = map paragraph_text (filter (\<lambda>p. style p = ListBullet) doc)"

fun docx_lists_from :: "nat \<Rightarrow> docx_paragraph list \<Rightarrow> nat list" where
  "docx_lists_from n [] = (if n = 0 then [] else [n])"
| "docx_lists_from n (p # ps) =
     (if style p = ListBullet then docx_lists_from (Suc n) ps
      else (if n = 0 then [] else [n]) @ docx_lists_from 0 ps)"

definition docx_lists :: "docx_paragraph list \<Rightarrow> nat list" where
  "docx_lists doc = docx_lists_from 0 doc"

definition docx_structure :: "docx_paragraph list \<Rightarrow> nat \<times> nat \<times> nat list" where
  "docx_structure doc = (docx_headings 1 doc, docx_headings 2 doc, docx_lists doc)"

fun pdf_has_style :: "pdf_style \<Rightarrow> flowable \<Rightarrow> bool" where
  "pdf_has_style s (Paragraph t s') = (s' = s)"
| "pdf_has_style s (Spacer w h) = False"

fun is_pdf_bullet :: "flowable \<Rightarrow> bool" where
  "is_pdf_bullet (Paragraph t s) = (s = NormalSpaced \<and> startswith t (bullet_repl @ [32]))"
| "is_pdf_bullet (Spacer w h) = False"

definition pdf_headings :: "pdf_style \<Rightarrow> flowable list \<Rightarrow> nat" where
  "pdf_headings s fs = length (filter (pdf_has_style s) fs)"

fun pdf_lists_from :: "nat \<Rightarrow> flowable list \<Rightarrow> nat list" where
  "pdf_lists_from n [] = (if n = 0 then [] else [n])"
| "pdf_lists_from n (f # fs) =
     (if is_pdf_bullet f then pdf_lists_from (Suc n) fs
      else if f = Spacer 1 6 then pdf_lists_from n fs
      else (if n = 0 then [] else [n]) @ pdf_lists_from 0 fs)"

definition pdf_structure :: "flowable list \<Rightarrow> nat \<times> nat \<times> nat list" where
  "pdf_structure fs = (pdf_headings Title fs, pdf_headings Heading2 fs, pdf_lists_from 0 fs)"

text \<open>The kinds of line both renderers tell apart, after stripping the line.\<close>

definition is_blank :: "pystr \<Rightarrow> bool" where
  "is_blank l \<longleftrightarrow> strip l = []"

definition is_h1 :: "pystr \<Rightarrow> bool" where
  "is_h1 l \<longleftrightarrow> startswith (strip l) (lit ''# '')"

definition is_h2 :: "pystr \<Rightarrow> bool" where
  "is_h2 l \<longleftrightarrow> startswith (strip l) (lit ''## '')"

definition is_h3 :: "pystr \<Rightarrow> bool" where
  "is_h3 l \<longleftrightarrow> startswith (strip l) (lit ''### '')"

definition is_bullet :: "pystr \<Rightarrow> bool" where
  "is_bullet l \<longleftrightarrow> startswith (strip l) (lit ''- '')"

section \<open>AI request orchestrator (\<open>GroqClient._make_request\<close>)\<close>

text \<open>
  Exceptions are values. \<open>asyncio.CancelledError\<close> derives from \<open>BaseException\<close> only
  (the code needs \<open>asyncio.to_thread\<close>, Python 3.9 or later), every other exception
  of the model derives from \<open>Exception\<close>. \<open>ApiError\<close> stands for whatever the client
  library raises, \<open>PyException\<close> for a plain \<open>Exception(msg)\<close>.
\<close>

datatype exn =
    TimeoutError
  | CancelledError
  | ValueError string
  | TypeError string
  | AttributeError string
  | OverflowError string
  | JSONDecodeError string
  | RuntimeError string
  | ApiError string
  | PyException string

fun is_Exception :: "exn \<Rightarrow> bool" where
  "is_Exception CancelledError = False"
| "is_Exception _ = True"

text \<open>
  What \<open>await asyncio.wait_for(task, timeout=60)\<close> does in one attempt: it returns the
  completion object or raises (\<open>TimeoutError\<close> after 60 seconds, \<open>CancelledError\<close>
  when the caller is cancelled while the attempt is in flight, or the error of the API
  call). A completion either has no usable \<open>choices\<close> or carries the content of its
  first choice.
\<close>

datatype completion = NoChoices | Content pystr

datatype await_result = Returns completion | Raises exn

datatype event = Attempt nat | Sleep nat

datatype flow = Return pystr | Raise exn | Continue

definition max_retries :: nat where
  "max_retries = 2"

definition retry_delay :: nat where
  "retry_delay = 1"

text \<open>The body of the inner \<open>try\<close>: await the call, check the response, return its content.\<close>

definition try_body :: "await_result \<Rightarrow> exn + pystr" where
  "try_body w =
     (case w of
        Raises e \<Rightarrow> Inl e
      | Returns NoChoices \<Rightarrow> Inl (ValueError ''Invalid response from Groq API'')
      | Returns (Content response_content) \<Rightarrow> Inr response_content)"

text \<open>
  The handlers of the inner \<open>try\<close>, in the order of the source: \<open>except
  asyncio.TimeoutError\<close> re-raises on the last attempt and sleeps otherwise;
  \<open>except Exception\<close> cleans up and re-raises; anything else propagates.
\<close>

definition inner_handlers :: "nat \<Rightarrow> exn \<Rightarrow> event list \<times> flow" where
  "inner_handlers attempt e =
     (if e = TimeoutError then
        (if attempt = max_retries then ([], Raise e)
         else ([Sleep (retry_delay * (attempt + 1))], Continue))
      else if is_Exception e then ([], Raise e)
      else ([], Raise e))"

text \<open>
  The handlers of the outer \<open>try\<close>: \<open>except asyncio.CancelledError: raise\<close>, then
  \<open>except Exception\<close>, which re-raises on the last attempt and sleeps otherwise.
\<close>

definition outer_handlers :: "nat \<Rightarrow> exn \<Rightarrow> event list \<times> flow" where
  "outer_handlers attempt e =
     (if e = CancelledError then ([], Raise e)
      else if is_Exception e then
        (if attempt = max_retries then ([], Raise e)
         else ([Sleep (retry_delay * (attempt + 1))], Continue))
      else ([], Raise e))"

definition iteration :: "nat \<Rightarrow> await_result \<Rightarrow> event list \<times> flow" where
  "iteration attempt w =
     (case try_body w of
        Inr response_content \<Rightarrow> ([], Return response_content)
      | Inl e \<Rightarrow>
          (case inner_handlers attempt e of
             (evs, Raise e') \<Rightarrow> (case outer_handlers attempt e' of (evs', f) \<Rightarrow> (evs @ evs', f))
           | (evs, f) \<Rightarrow> (evs, f)))"

text \<open>
  The \<open>for attempt in range(max_retries + 1)\<close> loop over a transport that says what
  the await of each attempt does; the events are the attempts made and the sleeps
  taken, in order. The statement after the loop raises \<open>RuntimeError\<close>.
\<close>

fun attempt_loop :: "(nat \<Rightarrow> await_result) \<Rightarrow> nat list \<Rightarrow> event list \<times> (exn + pystr)" where
  "attempt_loop transport [] =
     ([], Inl (RuntimeError ''Failed to get a valid response from Groq API after all retries''))"
| "attempt_loop transport (attempt # rest) =
     (case iteration attempt (transport attempt) of
        (evs, Return response_content) \<Rightarrow> (Attempt attempt # evs, Inr response_content)
      | (evs, Raise e) \<Rightarrow> (Attempt attempt # evs, Inl e)
      | (evs, Continue) \<Rightarrow>
          (case attempt_loop transport rest of (evs', r) \<Rightarrow> (Attempt attempt # evs @ evs', r)))"

text \<open>A message is a dictionary; only its keys matter to the orchestrator.\<close>

type_synonym message = "(string \<times> pystr) list"

definition well_formed :: "message \<Rightarrow> bool" where
  "well_formed msg \<longleftrightarrow> ''role'' \<in> fst ` set msg \<and> ''content'' \<in> fst ` set msg"

definition make_request ::
  "bool \<Rightarrow> message list \<Rightarrow> (nat \<Rightarrow> await_result) \<Rightarrow> event list \<times> (exn + pystr)" where
  "make_request enabled messages transport =
     (if \<not> enabled then ([], Inl (RuntimeError ''Groq API is not properly configured. Please check your API key and client initialization.''))
      else if \<not> list_all well_formed messages then
        ([], Inl (ValueError ''Each message must have role and content keys''))
      else attempt_loop transport [0..<max_retries + 1])"

fun is_attempt :: "event \<Rightarrow> bool" where
  "is_attempt (Attempt n) = True"
| "is_attempt (Sleep n) = False"

section \<open>Response interpreter and resume optimisation (\<open>GroqClient.optimize_resume\<close>)\<close>

text \<open>
  Python floats are rationals here, with the two infinities and NaN (rounding is not
  modelled). A comparison with NaN is false. \<open>min(a, b)\<close> gives \<open>b\<close> when \<open>b < a\<close> and
  \<open>a\<close> otherwise; \<open>max(a, b)\<close> gives \<open>b\<close> when \<open>b > a\<close> and \<open>a\<close> otherwise.
\<close>

datatype pyfloat = Fin rat | PosInf | NegInf | NaN

fun py_lt :: "pyfloat \<Rightarrow> pyfloat \<Rightarrow> bool" where
  "py_lt (Fin a) (Fin b) = (a < b)"
| "py_lt NegInf (Fin b) = True"
| "py_lt NegInf PosInf = True"
| "py_lt (Fin a) PosInf = True"
| "py_lt _ _ = False"

definition py_min :: "pyfloat \<Rightarrow> pyfloat \<Rightarrow> pyfloat" where
  "py_min a b = (if py_lt b a then b else a)"

definition py_max :: "pyfloat \<Rightarrow> pyfloat \<Rightarrow> pyfloat" where
  "py_max a b = (if py_lt a b then b else a)"

text \<open>What \<open>json.loads\<close> returns; an object keeps its members in order.\<close>

datatype json =
    JNull
  | JBool bool
  | JInt int
  | JFloat pyfloat
  | JStr pystr
  | JArr "json list"
  | JObj "(pystr \<times> json) list"

type_synonym pydict = "pystr \<rightharpoonup> json"

text \<open>The dictionary of a parsed object: of two members with one key the later wins.\<close>

definition dict_of :: "(pystr \<times> json) list \<Rightarrow> pydict" where
  "dict_of kvs = map_of (rev kvs)"

fun exn_str :: "exn \<Rightarrow> pystr" where
  "exn_str TimeoutError = []"
| "exn_str CancelledError = []"
| "exn_str (ValueError m) = lit m"
| "exn_str (TypeError m) = lit m"
| "exn_str (AttributeError m) = lit m"
| "exn_str (OverflowError m) = lit m"
| "exn_str (JSONDecodeError m) = lit m"
| "exn_str (RuntimeError m) = lit m"
| "exn_str (ApiError m) = lit m"
| "exn_str (PyException m) = lit m"

text \<open>
  The first search of the interpreter, for three backticks, an optional \<open>json\<close>, a
  newline, a lazy group, a newline and three backticks, with \<open>re.DOTALL\<close>.
  \<open>find_close\<close> is the lazy group: the shortest text that a newline and three
  backticks follow. \<open>fence_at\<close> matches at one position, first with the optional
  \<open>json\<close>, then without it. \<open>search_fence\<close> takes the leftmost position that matches.
\<close>

fun find_close :: "pystr \<Rightarrow> pystr option" where
  "find_close [] = None"
| "find_close (c # cs) =
     (if startswith (c # cs) [10, 96, 96, 96] then Some []
      else map_option ((#) c) (find_close cs))"

definition fence_at :: "pystr \<Rightarrow> pystr option" where
  "fence_at s =
     (if startswith s [96, 96, 96] then
        (let r = drop 3 s in
         case (if startswith r (lit ''json'') \<and> startswith (drop 4 r) [10]
               then find_close (drop 5 r) else None) of
           Some g \<Rightarrow> Some g
         | None \<Rightarrow> if startswith r [10] then find_close (drop 1 r) else None)
      else None)"

fun search_fence :: "pystr \<Rightarrow> pystr option" where
  "search_fence [] = None"
| "search_fence (c # cs) =
     (case fence_at (c # cs) of Some g \<Rightarrow> Some g | None \<Rightarrow> search_fence cs)"

text \<open>
  The second search, for an opening brace, anything, and a closing brace (greedy, with
  \<open>re.DOTALL\<close>): from the first opening brace to the last closing brace after it.
\<close>

definition search_braces :: "pystr \<Rightarrow> pystr option" where
  "search_braces s =
     (case dropWhile (\<lambda>c. c \<noteq> 123) s of
        [] \<Rightarrow> None
      | b # t \<Rightarrow>
          (case rev (dropWhile (\<lambda>c. c \<noteq> 125) (rev t)) of
             [] \<Rightarrow> None
           | u # us \<Rightarrow> Some (b # u # us)))"

text \<open>
  Parsing the response (lines 431 to 450). \<open>json.loads\<close> is a parameter: it gives the
  parsed value or the exception it raises.
\<close>

fun is_JSONDecodeError :: "exn \<Rightarrow> bool" where
  "is_JSONDecodeError (JSONDecodeError m) = True"
| "is_JSONDecodeError _ = False"

definition parse_response :: "(pystr \<Rightarrow> exn + json) \<Rightarrow> pystr \<Rightarrow> exn + json" where
  "parse_response loads response0 =
     (let response = strip response0 in
      case loads response of
        Inr result \<Rightarrow> Inr result
      | Inl e \<Rightarrow>
          if is_JSONDecodeError e then
            (case (case search_fence response of
                     Some g \<Rightarrow> Some g
                   | None \<Rightarrow> search_braces response) of
               Some g \<Rightarrow> loads (strip g)
             | None \<Rightarrow> Inl (ValueError ''No valid JSON found in the response''))
          else Inl e)"

text \<open>
  \<open>float(x)\<close> on a parsed value. Parsing a string as a float is a parameter. An
  integer too large for a float raises \<open>OverflowError\<close>.
\<close>

definition py_float :: "(pystr \<Rightarrow> pyfloat option) \<Rightarrow> json \<Rightarrow> exn + pyfloat" where
  "py_float str_to_float v =
     (case v of
        JInt i \<Rightarrow>
          if \<bar>i\<bar> < 2 ^ 1024 - 2 ^ 970 then Inr (Fin (of_int i))
          else Inl (OverflowError ''int too large to convert to float'')
      | JFloat x \<Rightarrow> Inr x
      | JBool b \<Rightarrow> Inr (Fin (if b then 1 else 0))
      | JStr s \<Rightarrow>
          (case str_to_float s of
             Some x \<Rightarrow> Inr x
           | None \<Rightarrow> Inl (ValueError ''could not convert string to float''))
      | _ \<Rightarrow> Inl (TypeError ''float() argument must be a string or a real number''))"

definition required_fields :: "pystr list" where
  "required_fields = [lit ''optimized_text'', lit ''score'', lit ''suggestions'']"

text \<open>\<open>sub in s\<close> on strings.\<close>

definition str_contains :: "pystr \<Rightarrow> pystr \<Rightarrow> bool" where
  "str_contains s sub \<longleftrightarrow> list_ex (\<lambda>i. startswith (drop i s) sub) [0..<Suc (length s)]"

text \<open>
  \<open>float(result["score"])\<close> clamped, with the handler for \<open>ValueError\<close> and
  \<open>TypeError\<close>; any other exception propagates.
\<close>

definition clamp_score :: "(pystr \<Rightarrow> pyfloat option) \<Rightarrow> json \<Rightarrow> exn + pyfloat" where
  "clamp_score str_to_float v =
     (case py_float str_to_float v of
        Inr x \<Rightarrow> Inr (py_max (Fin 0) (py_min (Fin 100) x))
      | Inl (ValueError m) \<Rightarrow> Inr (Fin 0)
      | Inl (TypeError m) \<Rightarrow> Inr (Fin 0)
      | Inl e \<Rightarrow> Inl e)"

text \<open>
  \<open>suggestions\<close> made a list: a list stays, a string is split into its non-blank lines,
  and \<open>split\<close> on anything else raises \<open>AttributeError\<close>.
\<close>

definition list_suggestions :: "json \<Rightarrow> exn + json" where
  "list_suggestions v =
     (case v of
        JArr xs \<Rightarrow> Inr (JArr xs)
      | JStr s \<Rightarrow> Inr (JArr (map JStr (filter (\<lambda>l. strip l \<noteq> []) (split_nl s))))
      | _ \<Rightarrow> Inl (AttributeError ''object has no attribute split''))"

definition get_default :: "pydict \<Rightarrow> pystr \<Rightarrow> json \<Rightarrow> json" where
  "get_default d k v = (case d k of Some x \<Rightarrow> x | None \<Rightarrow> v)"

text \<open>
  Validation and field defaults (lines 452 to 471) on the parsed value. For a value
  that is no object, \<open>field not in result\<close> is list membership, a substring test or a
  \<open>TypeError\<close>, and what passes that test fails at \<open>result["score"]\<close> with a
  \<open>TypeError\<close> that the handler's own assignment raises again.
\<close>

definition finish_result :: "(pystr \<Rightarrow> pyfloat option) \<Rightarrow> json \<Rightarrow> exn + pydict" where
  "finish_result str_to_float parsed =
     (case parsed of
        JObj kvs \<Rightarrow>
          (let result = dict_of kvs in
           if \<exists>field\<in>set required_fields. result field = None then
             Inl (ValueError ''Missing required field in response'')
           else
             (case clamp_score str_to_float (the (result (lit ''score''))) of
                Inl e \<Rightarrow> Inl e
              | Inr score \<Rightarrow>
                  (case list_suggestions (the (result (lit ''suggestions''))) of
                     Inl e \<Rightarrow> Inl e
                   | Inr suggestions \<Rightarrow>
                       Inr (result
                         (lit ''score'' \<mapsto> JFloat score,
                          lit ''suggestions'' \<mapsto> suggestions,
                          lit ''keywords_matched'' \<mapsto> get_default result (lit ''keywords_matched'') (JArr []),
                          lit ''missing_keywords'' \<mapsto> get_default result (lit ''missing_keywords'') (JArr []),
                          lit ''status'' \<mapsto> JStr (lit ''success''))))))
      | JArr xs \<Rightarrow>
          if \<exists>field\<in>set required_fields. JStr field \<notin> set xs then
            Inl (ValueError ''Missing required field in response'')
          else Inl (TypeError ''list indices must be integers or slices, not str'')
      | JStr s \<Rightarrow>
          if \<exists>field\<in>set required_fields. \<not> str_contains s field then
            Inl (ValueError ''Missing required field in response'')
          else Inl (TypeError ''str object does not support item assignment'')
      | _ \<Rightarrow> Inl (TypeError ''argument is not iterable''))"

text \<open>
  \<open>GroqClient.optimize_resume\<close>. \<open>enabled\<close> says that the client is enabled and
  initialised; \<open>request\<close> is what awaiting \<open>_make_request\<close> under the two-minute
  \<open>wait_for\<close> gave: the response text or the exception raised. The function returns a
  dictionary, or raises what no handler catches.
\<close>

definition too_short_msg :: pystr where
  "too_short_msg = lit ''Resume text is too short or empty''"

definition not_enabled_msg :: pystr where
  "not_enabled_msg = lit ''Groq client is not enabled or not properly initialized''"

definition too_short :: "pystr \<Rightarrow> bool" where
  "too_short resume_text \<longleftrightarrow> resume_text = [] \<or> length (strip resume_text) < 50"

definition parse_error_result :: "pystr \<Rightarrow> exn \<Rightarrow> pydict" where
  "parse_error_result resume_text e =
     [lit ''optimized_text'' \<mapsto> JStr resume_text,
      lit ''score'' \<mapsto> JFloat (Fin 0),
      lit ''suggestions'' \<mapsto>
        JArr [JStr (lit ''Failed to parse optimization response: '' @ exn_str e
                    @ lit ''. Showing original resume.'')],
      lit ''status'' \<mapsto> JStr (lit ''error''),
      lit ''error'' \<mapsto> JStr (lit ''Failed to parse Groq API response: '' @ exn_str e),
      lit ''keywords_matched'' \<mapsto> JArr [],
      lit ''missing_keywords'' \<mapsto> JArr []]"

text \<open>The inner \<open>try\<close> around parsing: any \<open>Exception\<close> gives the error dictionary.\<close>

definition interpret_response ::
  "(pystr \<Rightarrow> exn + json) \<Rightarrow> (pystr \<Rightarrow> pyfloat option) \<Rightarrow> pystr \<Rightarrow> pystr \<Rightarrow> exn + pydict" where
  "interpret_response loads str_to_float resume_text response =
     (case (case parse_response loads response of
              Inl e \<Rightarrow> Inl e
            | Inr parsed \<Rightarrow> finish_result str_to_float parsed) of
        Inr result \<Rightarrow> Inr result
      | Inl e \<Rightarrow> if is_Exception e then Inr (parse_error_result resume_text e) else Inl e)"

definition optimize_resume ::
  "(pystr \<Rightarrow> exn + json) \<Rightarrow> (pystr \<Rightarrow> pyfloat option) \<Rightarrow> bool \<Rightarrow> (exn + pystr) \<Rightarrow> pystr
     \<Rightarrow> exn + pydict" where
  "optimize_resume loads str_to_float enabled request resume_text =
     (if too_short resume_text then
        Inr [lit ''status'' \<mapsto> JStr (lit ''error''),
             lit ''error'' \<mapsto> JStr too_short_msg,
             lit ''optimized_text'' \<mapsto> JStr resume_text,
             lit ''score'' \<mapsto> JFloat (Fin 0),
             lit ''suggestions'' \<mapsto> JArr [JStr too_short_msg]]
      else if \<not> enabled then
        Inr [lit ''status'' \<mapsto> JStr (lit ''error''),
             lit ''error'' \<mapsto> JStr not_enabled_msg,
             lit ''optimized_text'' \<mapsto> JStr resume_text,
             lit ''score'' \<mapsto> JFloat (Fin 0),
             lit ''suggestions'' \<mapsto> JArr [JStr not_enabled_msg]]
      else
        (case (case request of
                 Inl e \<Rightarrow>
                   if e = TimeoutError then
                     Inl (PyException ''Request to Groq API timed out after 2 minutes'')
                   else Inl e
               | Inr response \<Rightarrow> interpret_response loads str_to_float resume_text response) of
           Inr result \<Rightarrow> Inr result
         | Inl e \<Rightarrow>
             if is_Exception e then
               Inr [lit ''optimized_text'' \<mapsto> JStr resume_text,
                    lit ''score'' \<mapsto> JFloat (Fin 0),
                    lit ''suggestions'' \<mapsto> JArr [JStr (lit ''Error during optimization: '' @ exn_str e)],
                    lit ''status'' \<mapsto> JStr (lit ''error'')]
             else Inl e))"

text \<open>
  \<open>ResumeOptimizer.optimize_resume\<close> (optimizer.py). \<open>client\<close> is what awaiting the
  client's \<open>optimize_resume\<close> gives, or \<open>None\<close> when no usable client is configured.
  \<open>result["suggestions"][:5]\<close> is a slice of a list or of a string.
\<close>

definition service_msg :: pystr where
  "service_msg = lit ''Resume optimization service is not properly configured''"

definition slice5 :: "json \<Rightarrow> exn + json" where
  "slice5 v =
     (case v of
        JArr xs \<Rightarrow> Inr (JArr (take 5 xs))
      | JStr s \<Rightarrow> Inr (JStr (take 5 s))
      | _ \<Rightarrow> Inl (TypeError ''object is not subscriptable''))"

definition optimizer_success :: "(pystr \<Rightarrow> pyfloat option) \<Rightarrow> pydict \<Rightarrow> exn + pydict" where
  "optimizer_success str_to_float result =
     (if \<exists>key\<in>set required_fields. result key = None then
        Inl (ValueError ''Invalid response from optimization service'')
      else
        (case py_float str_to_float (the (result (lit ''score''))) of
           Inl e \<Rightarrow> Inl e
         | Inr x \<Rightarrow>
             (case slice5 (the (result (lit ''suggestions''))) of
                Inl e \<Rightarrow> Inl e
              | Inr suggestions \<Rightarrow>
                  Inr [lit ''optimized_text'' \<mapsto> the (result (lit ''optimized_text'')),
                       lit ''score'' \<mapsto> JFloat (py_min (py_max x (Fin 0)) (Fin 100)),
                       lit ''suggestions'' \<mapsto> suggestions,
                       lit ''status'' \<mapsto> JStr (lit ''success'')])))"

definition optimizer_optimize_resume ::
  "(pystr \<Rightarrow> pyfloat option) \<Rightarrow> (exn + pydict) option \<Rightarrow> pystr \<Rightarrow> exn + pydict" where
  "optimizer_optimize_resume str_to_float client resume_text =
     (if too_short resume_text then
        Inr [lit ''optimized_text'' \<mapsto> JStr resume_text,
             lit ''score'' \<mapsto> JFloat (Fin 0),
             lit ''suggestions'' \<mapsto> JArr [JStr too_short_msg],
             lit ''status'' \<mapsto> JStr (lit ''error''),
             lit ''error'' \<mapsto> JStr too_short_msg]
      else
        (case client of
           None \<Rightarrow>
             Inr [lit ''optimized_text'' \<mapsto> JStr resume_text,
                  lit ''score'' \<mapsto> JFloat (Fin 0),
                  lit ''suggestions'' \<mapsto> JArr [JStr service_msg],
                  lit ''status'' \<mapsto> JStr (lit ''error''),
                  lit ''error'' \<mapsto> JStr service_msg]
         | Some call \<Rightarrow>
             (case (case call of
                      Inl e \<Rightarrow> Inl e
                    | Inr result \<Rightarrow> optimizer_success str_to_float result) of
                Inr r \<Rightarrow> Inr r
              | Inl e \<Rightarrow>
                  if is_Exception e then
                    Inr [lit ''optimized_text'' \<mapsto> JStr resume_text,
                         lit ''score'' \<mapsto> JFloat (Fin 0),
                         lit ''suggestions'' \<mapsto> JArr [JStr (lit ''Error during optimization. Please try again.'')],
                         lit ''status'' \<mapsto> JStr (lit ''error''),
                         lit ''error'' \<mapsto> JStr (exn_str e)]
                  else Inl e)))"

text \<open>A score in the closed interval from 0 to 100.\<close>

fun score_in_range :: "json option \<Rightarrow> bool" where
  "score_in_range (Some (JFloat (Fin q))) = (0 \<le> q \<and> q \<le> 100)"
| "score_in_range _ = False"

text \<open>A text in which no newline is directly followed by a backtick.\<close>

fun no_nl_tick :: "pystr \<Rightarrow> bool" where
  "no_nl_tick (a # b # cs) = (\<not> (a = 10 \<and> b = 96) \<and> no_nl_tick (b # cs))"
| "no_nl_tick _ = True"

text \<open>A response that is a text wrapped in a fenced code block with the given language tag.\<close>

definition fenced :: "pystr \<Rightarrow> pystr \<Rightarrow> pystr" where
  "fenced lang body = [96, 96, 96] @ lang @ [10] @ body @ [10, 96, 96, 96]"

text \<open>
  The error paths of \<open>optimize_resume\<close>: the input is too short, the client is
  disabled, the request raised, or the response does not parse.
\<close>

definition error_path :: "(pystr \<Rightarrow> exn + json) \<Rightarrow> bool \<Rightarrow> (exn + pystr) \<Rightarrow> pystr \<Rightarrow> bool" where
  "error_path loads enabled request resume_text \<longleftrightarrow>
     too_short resume_text \<or> \<not> enabled \<or>
     (case request of
        Inl e \<Rightarrow> is_Exception e
      | Inr response \<Rightarrow>
          (case parse_response loads response of Inl e \<Rightarrow> is_Exception e | Inr parsed \<Rightarrow> False))"

text \<open>
  Two responses used as examples, with the values \<open>json.loads\<close> gives for them: an
  object without \<open>score\<close>, and a complete object. \<open>example_loads\<close> is \<open>json.loads\<close> on
  these two texts; \<open>no_float\<close> stands for \<open>float\<close> on strings, which no example reaches.
\<close>

definition dq :: pystr where
  "dq = [34]"

definition response_no_score :: pystr where
  "response_no_score =
     lit ''{'' @ dq @ lit ''optimized_text'' @ dq @ lit '': '' @ dq @ lit ''Better resume'' @ dq @
     lit '', '' @ dq @ lit ''suggestions'' @ dq @ lit '': []}''"

definition response_full :: pystr where
  "response_full =
     lit ''{'' @ dq @ lit ''optimized_text'' @ dq @ lit '': '' @ dq @ lit ''Better resume'' @ dq @
     lit '', '' @ dq @ lit ''score'' @ dq @ lit '': 120, '' @
     dq @ lit ''suggestions'' @ dq @ lit '': '' @ dq @ lit ''Add metrics'' @ dq @ lit ''}''"

definition example_loads :: "pystr \<Rightarrow> exn + json" where
  "example_loads t =
     (if t = response_no_score then
        Inr (JObj [(lit ''optimized_text'', JStr (lit ''Better resume'')),
                   (lit ''suggestions'', JArr [])])
      else if t = response_full then
        Inr (JObj [(lit ''optimized_text'', JStr (lit ''Better resume'')),
                   (lit ''score'', JInt 120),
                   (lit ''suggestions'', JStr (lit ''Add metrics''))])
      else Inl (JSONDecodeError ''Expecting value''))"

definition no_float :: "pystr \<Rightarrow> pyfloat option" where
  "no_float s = None"

text \<open>A resume text of 65 characters, long enough for the length guard.\<close>

definition plain_resume :: pystr where
  "plain_resume = lit ''Jane Doe, data engineer with ten years of experience in analytics''"

text \<open>A resume text of two letters with 49 spaces between them.\<close>

definition sparse_resume :: pystr where
  "sparse_resume = 97 # replicate 49 32 @ [98]"

text \<open>
  What the results are checked for: the score lies between 0 and 100, the suggestions
  are a list, the optimised text is there and the status is \<open>success\<close> or \<open>error\<close>;
  and, on an error path, the text is the input and the score is 0.
\<close>

definition valid_result :: "pydict \<Rightarrow> bool" where
  "valid_result r \<longleftrightarrow>
     score_in_range (r (lit ''score'')) \<and>
     (case r (lit ''suggestions'') of Some (JArr xs) \<Rightarrow> True | _ \<Rightarrow> False) \<and>
     r (lit ''optimized_text'') \<noteq> None \<and>
     (r (lit ''status'') = Some (JStr (lit ''success'')) \<or>
      r (lit ''status'') = Some (JStr (lit ''error'')))"

definition original_returned :: "pydict \<Rightarrow> pystr \<Rightarrow> bool" where
  "original_returned r resume_text \<longleftrightarrow>
     r (lit ''optimized_text'') = Some (JStr resume_text) \<and>
     r (lit ''score'') = Some (JFloat (Fin 0))"

fun field :: "exn + pydict \<Rightarrow> pystr \<Rightarrow> json option" where
  "field (Inr r) k = r k"
| "field (Inl e) k = None"

definition non_ws_count :: "pystr \<Rightarrow> nat" where
  "non_ws_count s = length (filter (\<lambda>c. \<not> isspace c) s)"

section \<open>PDF text extraction\<close>

text \<open>
  A PDF that the reader opened is its list of pages; \<open>page.extract_text()\<close> gives the
  page's text or raises.
\<close>

datatype page = PageText pystr | PageRaises exn

text \<open>\<open>'\n'.join(lines)\<close>.\<close>

fun join_nl :: "pystr list \<Rightarrow> pystr" where
  "join_nl [] = []"
| "join_nl [l] = l"
| "join_nl (l # ls) = l @ [10] @ join_nl ls"

text \<open>
  \<open>ResumeProcessor._extract_text_from_pdf\<close> (resume_processor.py): a page that raises
  is logged and skipped, a page with empty text is not collected, and no collected
  text at all raises \<open>ValueError\<close>.
\<close>

fun collect_pages :: "page list \<Rightarrow> pystr list" where
  "collect_pages [] = []"
| "collect_pages (PageText page_text # pages) =
     (if page_text \<noteq> [] then page_text # collect_pages pages else collect_pages pages)"
| "collect_pages (PageRaises page_error # pages) = collect_pages pages"

definition processor_extract_text_from_pdf :: "page list \<Rightarrow> exn + pystr" where
  "processor_extract_text_from_pdf pages =
     (let text = collect_pages pages in
      if text = [] then Inl (ValueError ''No text could be extracted from the PDF'')
      else Inr (join_nl text))"

text \<open>
  \<open>extract_text_from_pdf\<close> (resume_parser.py): every page's text and a newline are
  appended to one string; an exception of any page leaves the loop for the handler,
  which returns \<open>None\<close>; the string is stripped at the end.
\<close>

fun append_pages :: "pystr \<Rightarrow> page list \<Rightarrow> exn + pystr" where
  "append_pages text [] = Inr text"
| "append_pages text (PageText page_text # pages) = append_pages (text @ page_text @ [10]) pages"
| "append_pages text (PageRaises e # pages) = Inl e"

definition parser_extract_text_from_pdf :: "bool \<Rightarrow> page list \<Rightarrow> pystr option" where
  "parser_extract_text_from_pdf has_required_deps pages =
     (if \<not> has_required_deps then None
      else (case append_pages [] pages of
              Inr text \<Rightarrow> Some (strip text)
            | Inl e \<Rightarrow> None))"

section \<open>Fallback content synthesizer (\<open>CVGenerator._generate_fallback_cv\<close>)\<close>

text \<open>
  The CV data is a dictionary of dictionaries. An entry of a dictionary is in one of
  three states: the key is absent, the key is there with the value \<open>None\<close> (what
  \<open>request.model_dump()\<close> in main.py passes for an optional field that was not given),
  or the key is there with a value. A job description is a list of strings or one
  string; the skills are a list of strings or one string; \<open>gpa\<close> holds the text that
  formatting the number gives.
\<close>

datatype 'a cell = Absent | Null | Val 'a

record personal_info =
  name :: "pystr cell"
  email :: "pystr cell"
  phone :: "pystr cell"
  linkedin :: "pystr cell"
  github :: "pystr cell"
  location :: "pystr cell"
  summary :: "pystr cell"

datatype description = DescList "pystr list" | DescStr pystr

record job =
  job_title :: "pystr cell"
  company :: "pystr cell"
  job_start_date :: "pystr cell"
  job_end_date :: "pystr cell"
  current :: "bool cell"
  job_location :: "pystr cell"
  job_description :: "description cell"

record edu =
  degree :: "pystr cell"
  institution :: "pystr cell"
  field_of_study :: "pystr cell"
  edu_start_date :: "pystr cell"
  edu_end_date :: "pystr cell"
  gpa :: "pystr cell"

datatype skills = SkillList "pystr list" | SkillStr pystr

record cv_data =
  personal :: "personal_info cell"
  work_experience :: "job list cell"
  education :: "edu list cell"
  cv_skills :: "skills cell"

text \<open>
  The values the function handles are strings and \<open>None\<close>. \<open>d.get(key, default)\<close>
  gives the default only when the key is absent, and \<open>None\<close> when the key is there
  with \<open>None\<close>. \<open>truthy_val\<close> is the value of \<open>d[key]\<close> in the branch guarded by
  \<open>if d.get(key):\<close>, which a missing, \<open>None\<close> or empty entry does not enter. \<open>fmt\<close>
  is the text an f-string puts for a value.
\<close>

datatype pyval = PyNone | PyStr pystr

definition get_or :: "pystr cell \<Rightarrow> pystr \<Rightarrow> pyval" where
  "get_or v d = (case v of Absent \<Rightarrow> PyStr d | Null \<Rightarrow> PyNone | Val x \<Rightarrow> PyStr x)"

definition truthy_val :: "pystr cell \<Rightarrow> pystr option" where
  "truthy_val v = (case v of Val x \<Rightarrow> if x \<noteq> [] then Some x else None | _ \<Rightarrow> None)"

definition fmt :: "pyval \<Rightarrow> pystr" where
  "fmt v = (case v of PyNone \<Rightarrow> lit ''None'' | PyStr s \<Rightarrow> s)"

text \<open>\<open>dates += text\<close>: a \<open>TypeError\<close> when \<open>dates\<close> is \<open>None\<close>.\<close>

definition iadd :: "pyval \<Rightarrow> pystr \<Rightarrow> exn + pyval" where
  "iadd v t =
     (case v of
        PyStr d \<Rightarrow> Inr (PyStr (d @ t))
      | PyNone \<Rightarrow> Inl (TypeError ''unsupported operand type(s) for +=: NoneType and str''))"

text \<open>\<open>"\n".join(lines)\<close>: a \<open>TypeError\<close> when an element of the list is \<open>None\<close>.\<close>

definition str_join_nl :: "pyval list \<Rightarrow> exn + pystr" where
  "str_join_nl ls =
     (if PyNone \<in> set ls then Inl (TypeError ''sequence item: expected str instance, NoneType found'')
      else Inr (join_nl (map fmt ls)))"

text \<open>A \<open>for\<close> loop that appends the lines of each element and stops at the first exception.\<close>

fun collect :: "('a \<Rightarrow> exn + 'b list) \<Rightarrow> 'a list \<Rightarrow> exn + 'b list" where
  "collect f [] = Inr []"
| "collect f (x # xs) =
     (case f x of
        Inl e \<Rightarrow> Inl e
      | Inr ls \<Rightarrow> (case collect f xs of Inl e \<Rightarrow> Inl e | Inr rest \<Rightarrow> Inr (ls @ rest)))"

definition empty_personal :: personal_info where
  "empty_personal = \<lparr>name = Absent, email = Absent, phone = Absent, linkedin = Absent,
     github = Absent, location = Absent, summary = Absent\<rparr>"

definition header_lines :: "personal_info \<Rightarrow> pyval list" where
  "header_lines p =
     [PyStr (lit ''# '' @ fmt (get_or (name p) (lit ''Your Name''))),
      PyStr (fmt (get_or (email p) []) @ lit '' | '' @ fmt (get_or (phone p) []))]
     @ (case truthy_val (linkedin p) of Some x \<Rightarrow> [PyStr (lit ''LinkedIn: '' @ x)] | None \<Rightarrow> [])
     @ (case truthy_val (github p) of Some x \<Rightarrow> [PyStr (lit ''GitHub: '' @ x)] | None \<Rightarrow> [])
     @ (case truthy_val (location p) of Some x \<Rightarrow> [PyStr (lit ''Location: '' @ x)] | None \<Rightarrow> [])"

text \<open>Line 163 appends the value of \<open>personal.get('summary', ...)\<close> itself, not its text.\<close>

definition summary_lines :: "personal_info \<Rightarrow> pyval list" where
  "summary_lines p =
     [PyStr ([10] @ lit ''## Summary''),
      get_or (summary p)
        (lit ''Experienced professional with a strong background in their field.'')]"

definition job_dates :: "job \<Rightarrow> exn + pyval" where
  "job_dates j =
     (let dates = get_or (job_start_date j) (lit ''Start'') in
      case truthy_val (job_end_date j) of
        Some e \<Rightarrow> iadd dates (lit '' to '' @ e)
      | None \<Rightarrow> if current j = Val True then iadd dates (lit '' to Present'') else Inr dates)"

definition description_lines :: "description cell \<Rightarrow> pyval list" where
  "description_lines d =
     (case d of
        Val (DescList ds) \<Rightarrow>
          if ds = [] then [] else PyStr [] # map (\<lambda>desc. PyStr (lit ''- '' @ desc)) ds
      | Val (DescStr s) \<Rightarrow> if s = [] then [] else [PyStr [], PyStr (lit ''- '' @ s)]
      | _ \<Rightarrow> [])"

definition job_lines :: "job \<Rightarrow> exn + pyval list" where
  "job_lines j =
     (case job_dates j of
        Inl e \<Rightarrow> Inl e
      | Inr dates \<Rightarrow>
          Inr ([PyStr ([10] @ lit ''### '' @ fmt (get_or (job_title j) (lit ''Position''))
                       @ lit '' at '' @ fmt (get_or (company j) (lit ''Company''))),
                PyStr (lit ''*'' @ fmt dates @ lit ''*'')]
               @ (case truthy_val (job_location j) of
                    Some x \<Rightarrow> [PyStr (lit ''*'' @ x @ lit ''*'')]
                  | None \<Rightarrow> [])
               @ description_lines (job_description j)))"

text \<open>\<open>if work_exp:\<close> guards the heading together with the jobs.\<close>

definition work_lines :: "job list \<Rightarrow> exn + pyval list" where
  "work_lines work_exp =
     (if work_exp \<noteq> [] then
        (case collect job_lines work_exp of
           Inl e \<Rightarrow> Inl e
         | Inr ls \<Rightarrow> Inr (PyStr ([10] @ lit ''## Work Experience'') # ls))
      else Inr [])"

text \<open>\<open>if 'gpa' in edu:\<close> holds also when the key is there with \<open>None\<close>.\<close>

definition edu_dates :: "edu \<Rightarrow> exn + pyval" where
  "edu_dates e =
     (let dates = get_or (edu_start_date e) (lit ''Start'') in
      case (case truthy_val (edu_end_date e) of
              Some x \<Rightarrow> iadd dates (lit '' to '' @ x)
            | None \<Rightarrow> Inr dates) of
        Inl err \<Rightarrow> Inl err
      | Inr dates' \<Rightarrow>
          (case gpa e of
             Absent \<Rightarrow> Inr dates'
           | Null \<Rightarrow> iadd dates' (lit '' | GPA: '' @ fmt PyNone)
           | Val g \<Rightarrow> iadd dates' (lit '' | GPA: '' @ g)))"

definition edu_lines :: "edu \<Rightarrow> exn + pyval list" where
  "edu_lines e =
     (case edu_dates e of
        Inl err \<Rightarrow> Inl err
      | Inr dates \<Rightarrow>
          Inr [PyStr ([10] @ lit ''### '' @ fmt (get_or (degree e) (lit ''Degree''))
                      @ (case truthy_val (field_of_study e) of
                           Some x \<Rightarrow> lit '' in '' @ x
                         | None \<Rightarrow> [])),
               PyStr (fmt (get_or (institution e) (lit ''Institution''))),
               PyStr (lit ''*'' @ fmt dates @ lit ''*'')])"

definition education_lines :: "edu list \<Rightarrow> exn + pyval list" where
  "education_lines es =
     (if es \<noteq> [] then
        (case collect edu_lines es of
           Inl e \<Rightarrow> Inl e
         | Inr ls \<Rightarrow> Inr (PyStr ([10] @ lit ''## Education'') # ls))
      else Inr [])"

text \<open>\<open>", ".join(skills)\<close>.\<close>

fun join_comma :: "pystr list \<Rightarrow> pystr" where
  "join_comma [] = []"
| "join_comma [s] = s"
| "join_comma (s # ss) = s @ lit '', '' @ join_comma ss"

definition skills_lines :: "skills cell \<Rightarrow> pyval list" where
  "skills_lines sk =
     (case sk of
        Val (SkillList ss) \<Rightarrow>
          if ss = [] then [] else [PyStr ([10] @ lit ''## Skills''), PyStr (join_comma ss)]
      | Val (SkillStr s) \<Rightarrow> if s = [] then [] else [PyStr ([10] @ lit ''## Skills''), PyStr s]
      | _ \<Rightarrow> [])"

text \<open>
  \<open>cv_data.get(key, default)\<close> for the sections. A \<open>personal_info\<close> that is \<open>None\<close>
  fails at its first \<open>.get\<close>; a list that is \<open>None\<close> is false in the \<open>if\<close> that guards
  its section, as the empty list is.
\<close>

definition personal_of :: "cv_data \<Rightarrow> exn + personal_info" where
  "personal_of cv =
     (case personal cv of
        Absent \<Rightarrow> Inr empty_personal
      | Null \<Rightarrow> Inl (AttributeError ''NoneType object has no attribute get'')
      | Val p \<Rightarrow> Inr p)"

definition work_of :: "cv_data \<Rightarrow> job list" where
  "work_of cv = (case work_experience cv of Val w \<Rightarrow> w | _ \<Rightarrow> [])"

definition education_of :: "cv_data \<Rightarrow> edu list" where
  "education_of cv = (case education cv of Val e \<Rightarrow> e | _ \<Rightarrow> [])"

text \<open>The body of the \<open>try\<close> (lines 144 to 210).\<close>

definition fallback_body :: "cv_data \<Rightarrow> exn + pystr" where
  "fallback_body cv =
     (case personal_of cv of
        Inl e \<Rightarrow> Inl e
      | Inr p \<Rightarrow>
          (case work_lines (work_of cv) of
             Inl e \<Rightarrow> Inl e
           | Inr work \<Rightarrow>
               (case education_lines (education_of cv) of
                  Inl e \<Rightarrow> Inl e
                | Inr educ \<Rightarrow>
                    str_join_nl (header_lines p @ summary_lines p @ work @ educ
                                 @ skills_lines (cv_skills cv)))))"

text \<open>The document the handler \<open>except Exception\<close> returns (lines 212 to 214).\<close>

definition error_document :: pystr where
  "error_document =
     lit ''# CV Generation Error'' @ [10, 10] @
     lit ''Unable to generate CV. Please try again later or check your input data.''"

definition generate_fallback_cv :: "cv_data \<Rightarrow> exn + pystr" where
  "generate_fallback_cv cv =
     (case fallback_body cv of
        Inr doc \<Rightarrow> Inr doc
      | Inl e \<Rightarrow> if is_Exception e then Inr error_document else Inl e)"

text \<open>The level-2 headings of a markdown document, as both renderers find them.\<close>

definition h2_headings :: "pystr \<Rightarrow> pystr list" where
  "h2_headings md = map (\<lambda>l. drop 3 (strip l)) (filter is_h2 (split_nl md))"

definition bullet_items :: "pystr \<Rightarrow> pystr list" where
  "bullet_items md = map (\<lambda>l. drop 2 (strip l)) (filter is_bullet (split_nl md))"

section \<open>Rendering with fallback (\<open>CVGenerator.generate_cv\<close>, lines 77 to 131)\<close>

text \<open>
  The length of the UTF-8 encoding of a text: what writing it to a file opened with
  \<open>encoding='utf-8'\<close> puts on disk.
\<close>

definition utf8_len :: "pystr \<Rightarrow> nat" where
  "utf8_len s = sum_list (map (\<lambda>c. if c < 128 then 1 else if c < 2048 then 2 else if c < 65536 then 3 else 4) s)"

datatype format = Docx | Pdf | Md

text \<open>
  What the environment does. \<open>render\<close> is the outcome of \<open>_create_docx\<close> or
  \<open>_create_pdf\<close>: the exception raised, or the size of the file left at the output
  path (\<open>None\<close> when no file is there). \<open>md_write\<close> and \<open>fallback_write\<close> say whether
  writing the markdown file raises, for the requested markdown format and for the
  fallback.
\<close>

record render_env =
  render :: "exn + nat option"
  md_write :: "exn option"
  fallback_write :: "exn option"

text \<open>
  What the caller gets: the format of the file whose path is returned, its size when
  the function returned, and whether the \<open>finally\<close> clause removed it.
\<close>

record artifact =
  art_format :: format
  byte_size :: nat
  removed :: bool

text \<open>The \<open>try\<close> body: render, then check that the file exists and is not empty.\<close>

definition primary_render :: "format \<Rightarrow> pystr \<Rightarrow> render_env \<Rightarrow> exn + nat" where
  "primary_render output_format markdown_content env =
     (case (case output_format of
              Md \<Rightarrow> (case md_write env of
                         Some e \<Rightarrow> Inl e
                       | None \<Rightarrow> Inr (Some (utf8_len markdown_content)))
            | _ \<Rightarrow> render env) of
        Inl e \<Rightarrow> Inl e
      | Inr None \<Rightarrow> Inl (RuntimeError ''Output file is empty or not created'')
      | Inr (Some n) \<Rightarrow>
          if n = 0 then Inl (RuntimeError ''Output file is empty or not created'') else Inr n)"

text \<open>
  The handler \<open>except Exception as format_error\<close>: for a format other than markdown
  it writes the markdown to a new file and returns that path; the \<open>finally\<close> clause
  removes a returned file of size 0. An exception that leaves the handler is wrapped
  in \<open>RuntimeError\<close> by the outermost handler.
\<close>

definition render_cv :: "format \<Rightarrow> pystr \<Rightarrow> render_env \<Rightarrow> exn + artifact" where
  "render_cv output_format markdown_content env =
     (case primary_render output_format markdown_content env of
        Inr n \<Rightarrow> Inr \<lparr>art_format = output_format, byte_size = n, removed = False\<rparr>
      | Inl format_error \<Rightarrow>
          if \<not> is_Exception format_error then Inl format_error
          else if output_format \<noteq> Md then
            (case fallback_write env of
               Some e \<Rightarrow>
                 if is_Exception e then Inl (RuntimeError ''Failed to generate CV'') else Inl e
             | None \<Rightarrow>
                 Inr \<lparr>art_format = Md, byte_size = utf8_len markdown_content,
                      removed = (utf8_len markdown_content = 0)\<rparr>)
          else Inl (RuntimeError ''Failed to generate CV''))"

text \<open>
  Two example inputs without work experience, in the shape \<open>request.model_dump()\<close>
  gives: every key is there, and the optional fields that were not given are \<open>None\<close>.
  In \<open>request_cv\<close> the optional \<open>phone\<close> and \<open>summary\<close> are not given; in \<open>jane_cv\<close>
  they are.
\<close>

definition mit_edu :: edu where
  "mit_edu = \<lparr>degree = Val (lit ''BSc''), institution = Val (lit ''MIT''),
              field_of_study = Null, edu_start_date = Val (lit ''2015''),
              edu_end_date = Val (lit ''2019''), gpa = Val (lit ''3.9'')\<rparr>"

definition request_cv :: cv_data where
  "request_cv =
     \<lparr>personal = Val \<lparr>name = Val (lit ''Jane Doe''), email = Val (lit ''jane@mit.edu''),
                        phone = Null, linkedin = Null, github = Null, location = Null,
                        summary = Null\<rparr>,
      work_experience = Val [],
      education = Val [mit_edu],
      cv_skills = Val (SkillList [lit ''Python'', lit ''SQL''])\<rparr>"

definition jane_cv :: cv_data where
  "jane_cv =
     \<lparr>personal = Val \<lparr>name = Val (lit ''Jane Doe''), email = Val (lit ''jane@mit.edu''),
                        phone = Val (lit ''555''), linkedin = Null, github = Null,
                        location = Null, summary = Val (lit ''Data engineer'')\<rparr>,
      work_experience = Val [],
      education = Val [mit_edu],
      cv_skills = Val (SkillList [lit ''Python'', lit ''SQL''])\<rparr>"

text \<open>The document the synthesizer returns for \<open>jane_cv\<close>.\<close>

definition jane_document :: pystr where
  "jane_document =
     join_nl [lit ''# Jane Doe'', lit ''jane@mit.edu | 555'', [], lit ''## Summary'',
              lit ''Data engineer'', [], lit ''## Education'', [], lit ''### BSc'', lit ''MIT'',
              lit ''*2015 to 2019 | GPA: 3.9*'', [], lit ''## Skills'', lit ''Python, SQL'']"

section \<open>Normalisation: idempotence\<close>

lemma isspace_consts:
  "isspace 32" "isspace 10" "isspace 12" "\<not> isspace 226" "\<not> isspace 8364" "\<not> isspace 162"
  by (simp_all add: isspace_def)

lemma wspaced_collapse_ws: "wspaced (collapse_ws t)"
proof (induction t rule: collapse_ws.induct)
  case 1
  show ?case by simp
next
  case (2 c cs)
  show ?case
  proof (cases "isspace c")
    case True
    let ?d = "dropWhile isspace cs"
    have "?d = [] \<or> (\<exists>x xs. ?d = x # xs \<and> \<not> isspace x)"
      by (cases ?d) (auto simp: dropWhile_eq_Cons_conv)
    then have "case collapse_ws ?d of [] \<Rightarrow> True | d # _ \<Rightarrow> \<not> isspace d"
      by (elim disjE exE conjE) (simp_all del: dropWhile_eq_Nil_conv)
    with True 2 show ?thesis by simp
  next
    case False
    with 2 show ?thesis by simp
  qed
qed

lemma wspaced_dropWhile: "wspaced u \<Longrightarrow> wspaced (dropWhile isspace u)"
  by (induction u) auto

lemma rstrip_not_all: "\<not> list_all isspace cs \<Longrightarrow> \<exists>x xs. cs = x # xs \<and> rstrip cs = x # rstrip xs"
  by (cases cs) auto

lemma spaced_rstrip: "wspaced u \<Longrightarrow> spaced (rstrip u)"
proof (induction u)
  case Nil
  show ?case by simp
next
  case (Cons c cs)
  show ?case
  proof (cases "list_all isspace (c # cs)")
    case True
    then show ?thesis by simp
  next
    case False
    show ?thesis
    proof (cases "isspace c")
      case True
      with False have "\<not> list_all isspace cs" by simp
      then obtain x xs where x: "cs = x # xs" "rstrip cs = x # rstrip xs"
        using rstrip_not_all by blast
      with Cons True False show ?thesis by auto
    next
      case False
      with Cons show ?thesis by auto
    qed
  qed
qed

lemma tidy_strip: "wspaced u \<Longrightarrow> tidy (strip u)"
proof -
  assume w: "wspaced u"
  let ?d = "dropWhile isspace u"
  have s: "spaced (rstrip ?d)" using w by (simp add: spaced_rstrip wspaced_dropWhile)
  have "?d = [] \<or> (\<exists>x xs. ?d = x # xs \<and> \<not> isspace x)"
    by (cases ?d) (auto simp: dropWhile_eq_Cons_conv)
  then have "case rstrip ?d of [] \<Rightarrow> True | c # _ \<Rightarrow> \<not> isspace c"
    by (elim disjE exE conjE) (simp_all del: dropWhile_eq_Nil_conv)
  with s show ?thesis by (simp add: tidy_def strip_def)
qed

lemma spaced_Cons_space:
  "spaced (c # cs) \<Longrightarrow> isspace c \<Longrightarrow> c = 32 \<and> (\<exists>d ds. cs = d # ds \<and> \<not> isspace d)"
  by (cases cs) simp_all

lemma spaced_collapse_ws: "spaced u \<Longrightarrow> collapse_ws u = u"
proof (induction u)
  case Nil
  show ?case by simp
next
  case (Cons c cs)
  then have ih: "collapse_ws cs = cs" by simp
  show ?case
  proof (cases "isspace c")
    case True
    with Cons.prems obtain d ds where "cs = d # ds" "\<not> isspace d" "c = 32"
      using spaced_Cons_space by blast
    with True ih show ?thesis by simp
  next
    case False
    with ih show ?thesis by simp
  qed
qed

lemma spaced_rstrip_id: "spaced u \<Longrightarrow> rstrip u = u"
proof (induction u)
  case Nil
  show ?case by simp
next
  case (Cons c cs)
  then have ih: "rstrip cs = cs" by simp
  show ?case
  proof (cases "isspace c")
    case True
    with Cons.prems obtain d ds where "cs = d # ds" "\<not> isspace d"
      using spaced_Cons_space by blast
    with ih show ?thesis by simp
  next
    case False
    with ih show ?thesis by simp
  qed
qed

lemma tidy_strip_id: "tidy u \<Longrightarrow> strip u = u"
  by (cases u) (simp_all add: tidy_def strip_def spaced_rstrip_id)

lemma spaced_ws: "spaced u \<Longrightarrow> c \<in> set u \<Longrightarrow> isspace c \<Longrightarrow> c = 32"
  by (induction u) auto

lemma spaced_no_nl: "spaced u \<Longrightarrow> 10 \<notin> set u"
  using spaced_ws[of u 10] by (auto simp: isspace_consts)

lemma spaced_no_ff: "spaced u \<Longrightarrow> 12 \<notin> set u"
  using spaced_ws[of u 12] by (auto simp: isspace_consts)

lemma remove_ff_id: "12 \<notin> set u \<Longrightarrow> remove_ff u = u"
  by (induction u) (auto simp: remove_ff_def)

lemma replace_bullet_Cons:
  "replace_bullet (c # cs) = (if c = 8226 then bullet_repl else [c]) @ replace_bullet cs"
  by (simp add: replace_bullet_def)

lemma replace_bullet_Nil: "replace_bullet [] = []"
  by (simp add: replace_bullet_def)

lemma spaced_replace_bullet: "spaced u \<Longrightarrow> spaced (replace_bullet u)"
  by (induction u)
     (auto simp: replace_bullet_Cons replace_bullet_Nil bullet_repl_def isspace_consts split: list.splits)

lemma tidy_replace_bullet: "tidy u \<Longrightarrow> tidy (replace_bullet u)"
  by (cases u)
     (auto simp: tidy_def spaced_replace_bullet replace_bullet_Cons replace_bullet_Nil bullet_repl_def isspace_consts)

lemma no_bullet_replace_bullet: "8226 \<notin> set (replace_bullet u)"
  by (induction u) (auto simp: replace_bullet_Cons replace_bullet_Nil bullet_repl_def)

lemma replace_bullet_id: "8226 \<notin> set u \<Longrightarrow> replace_bullet u = u"
  by (induction u) (auto simp: replace_bullet_Cons replace_bullet_Nil)

lemma sub_headers_id: "10 \<notin> set u \<Longrightarrow> sub_headers u = u"
  by (induction u) auto

lemma squeeze_nl_id: "10 \<notin> set u \<Longrightarrow> squeeze_nl u = u"
  by (induction u) auto

lemma clean_tidy:
  assumes "tidy u" "8226 \<notin> set u"
  shows "clean_extracted_text u = u"
proof -
  from assms have s: "spaced u" by (simp add: tidy_def)
  show ?thesis
    using assms s
    by (simp add: clean_extracted_text_def Let_def spaced_collapse_ws tidy_strip_id
        remove_ff_id spaced_no_ff replace_bullet_id sub_headers_id squeeze_nl_id spaced_no_nl)
qed

lemma clean_shape:
  "text \<noteq> [] \<Longrightarrow> clean_extracted_text text = replace_bullet (strip (collapse_ws text))"
proof -
  assume "text \<noteq> []"
  let ?u = "strip (collapse_ws text)"
  have t: "tidy ?u" by (simp add: tidy_strip wspaced_collapse_ws)
  then have t3: "tidy (replace_bullet ?u)" by (rule tidy_replace_bullet)
  from t have s: "spaced ?u" by (simp add: tidy_def)
  from t3 have s3: "spaced (replace_bullet ?u)" by (simp add: tidy_def)
  show ?thesis
    using \<open>text \<noteq> []\<close> s s3 t3
    by (simp add: clean_extracted_text_def Let_def remove_ff_id spaced_no_ff
        sub_headers_id squeeze_nl_id spaced_no_nl tidy_strip_id)
qed

text \<open>
  Claim C4. Post-extraction normalisation is idempotent: cleaning a cleaned text gives
  the cleaned text again, for every input text.
\<close>

theorem clean_extracted_text_idempotent:
  "clean_extracted_text (clean_extracted_text t) = clean_extracted_text t"
proof (cases "t = []")
  case True
  then show ?thesis by (simp add: clean_extracted_text_def)
next
  case False
  let ?u = "strip (collapse_ws t)"
  have "tidy (replace_bullet ?u)"
    by (simp add: tidy_replace_bullet tidy_strip wspaced_collapse_ws)
  then have "clean_extracted_text (replace_bullet ?u) = replace_bullet ?u"
    by (rule clean_tidy) (rule no_bullet_replace_bullet)
  with False show ?thesis by (simp add: clean_shape)
qed

section \<open>Renderer: structural counts\<close>

lemma startswith_simps:
  "startswith s [] = True"
  "startswith [] (a # p) = False"
  "startswith (c # cs) (a # p) = (c = a \<and> startswith cs p)"
  by (auto simp: startswith_def)

lemma lit_prefixes:
  "lit ''### '' = [35, 35, 35, 32]" "lit ''## '' = [35, 35, 32]" "lit ''# '' = [35, 32]"
  "lit ''- '' = [45, 32]"
  by (simp_all add: lit_def)

lemma startswith_ConsD: "startswith s (a # p) \<Longrightarrow> \<exists>r. s = a # r \<and> startswith r p"
  by (cases s) (simp_all add: startswith_simps)

lemma is_bullet_shape: "is_bullet l \<Longrightarrow> \<exists>r. strip l = 45 # 32 # r"
  by (auto simp: is_bullet_def lit_prefixes dest!: startswith_ConsD)

lemma is_h1_shape: "is_h1 l \<Longrightarrow> \<exists>r. strip l = 35 # 32 # r"
  by (auto simp: is_h1_def lit_prefixes dest!: startswith_ConsD)

lemma is_h2_shape: "is_h2 l \<Longrightarrow> \<exists>r. strip l = 35 # 35 # 32 # r"
  by (auto simp: is_h2_def lit_prefixes dest!: startswith_ConsD)

lemma is_h3_shape: "is_h3 l \<Longrightarrow> \<exists>r. strip l = 35 # 35 # 35 # 32 # r"
  by (auto simp: is_h3_def lit_prefixes dest!: startswith_ConsD)

lemma docx_headings_append:
  "docx_headings k (a @ b) = docx_headings k a + docx_headings k b"
  by (simp add: docx_headings_def)

lemma docx_items_append: "docx_items (a @ b) = docx_items a @ docx_items b"
  by (simp add: docx_items_def)

lemma docx_lists_skip:
  "docx_items ps = [] \<Longrightarrow> docx_lists_from 0 (ps @ rest) = docx_lists_from 0 rest"
  by (induction ps) (simp_all add: docx_items_def split: if_splits)

lemma docx_lists_close:
  "docx_items ps = [] \<Longrightarrow> docx_lists_from n ps = (if n = 0 then [] else [n])"
  by (induction ps arbitrary: n) (simp_all add: docx_items_def split: if_splits)

lemma docx_line_bullet:
  assumes "is_bullet l"
  shows "docx_line (doc, None) l =
           (doc @ [\<lparr>style = ListBullet, runs = [drop 2 (strip l)]\<rparr>], Some (length doc))"
    and "docx_line (doc @ [\<lparr>style = ListBullet, runs = rs\<rparr>], Some (length doc)) l =
           (doc @ [\<lparr>style = ListBullet, runs = rs @ [drop 2 (strip l)]\<rparr>], Some (length doc))"
proof -
  from assms obtain r where r: "strip l = 45 # 32 # r" using is_bullet_shape by blast
  show "docx_line (doc, None) l =
           (doc @ [\<lparr>style = ListBullet, runs = [drop 2 (strip l)]\<rparr>], Some (length doc))"
    by (simp add: docx_line_def r lit_prefixes startswith_simps add_run_def)
  show "docx_line (doc @ [\<lparr>style = ListBullet, runs = rs\<rparr>], Some (length doc)) l =
           (doc @ [\<lparr>style = ListBullet, runs = rs @ [drop 2 (strip l)]\<rparr>], Some (length doc))"
    by (simp add: docx_line_def r lit_prefixes startswith_simps add_run_def)
qed

lemma docx_line_quiet:
  assumes "is_blank l \<or> is_h1 l \<or> is_h2 l \<or> is_h3 l"
  shows "\<exists>ps. docx_line (doc, cur) l = (doc @ ps, None) \<and> docx_items ps = [] \<and>
           docx_headings 1 ps = (if is_h1 l then 1 else 0) \<and>
           docx_headings 2 ps = (if is_h2 l then 1 else 0)"
proof -
  consider (b) "is_blank l" | (h1) "is_h1 l" | (h2) "is_h2 l" | (h3) "is_h3 l"
    using assms by blast
  then show ?thesis
  proof cases
    case b
    then have "strip l = []" by (simp add: is_blank_def)
    then have "docx_line (doc, cur) l = (doc @ [], None)" "\<not> is_h1 l" "\<not> is_h2 l"
      by (simp_all add: docx_line_def is_h1_def is_h2_def lit_prefixes startswith_simps)
    then show ?thesis by (intro exI[of _ "[]"]) (simp add: docx_headings_def docx_items_def)
  next
    case h1
    then obtain r where r: "strip l = 35 # 32 # r" using is_h1_shape by blast
    have "docx_line (doc, cur) l = (doc @ [\<lparr>style = Heading 1, runs = [r]\<rparr>], None)" "is_h1 l" "\<not> is_h2 l"
      by (simp_all add: docx_line_def is_h1_def is_h2_def r lit_prefixes startswith_simps add_heading_def)
    then show ?thesis by (simp add: docx_headings_def docx_items_def)
  next
    case h2
    then obtain r where r: "strip l = 35 # 35 # 32 # r" using is_h2_shape by blast
    have "docx_line (doc, cur) l = (doc @ [\<lparr>style = Heading 2, runs = [r]\<rparr>], None)" "\<not> is_h1 l" "is_h2 l"
      by (simp_all add: docx_line_def is_h1_def is_h2_def r lit_prefixes startswith_simps add_heading_def)
    then show ?thesis by (simp add: docx_headings_def docx_items_def)
  next
    case h3
    then obtain r where r: "strip l = 35 # 35 # 35 # 32 # r" using is_h3_shape by blast
    have "docx_line (doc, cur) l = (doc @ [\<lparr>style = Heading 3, runs = [r]\<rparr>], None)" "\<not> is_h1 l" "\<not> is_h2 l"
      by (simp_all add: docx_line_def is_h1_def is_h2_def r lit_prefixes startswith_simps add_heading_def)
    then show ?thesis by (simp add: docx_headings_def docx_items_def)
  qed
qed

lemma docx_fold_quiet:
  assumes "\<forall>l\<in>set ls. is_blank l \<or> is_h1 l \<or> is_h2 l \<or> is_h3 l"
  shows "\<exists>ps. foldl docx_line (doc, cur) ls = (doc @ ps, if ls = [] then cur else None) \<and>
           docx_items ps = [] \<and>
           docx_headings 1 ps = length (filter is_h1 ls) \<and>
           docx_headings 2 ps = length (filter is_h2 ls)"
  using assms
proof (induction ls arbitrary: doc cur)
  case Nil
  have "foldl docx_line (doc, cur) [] = (doc @ [], cur)" by simp
  then show ?case by (auto simp: docx_headings_def docx_items_def)
next
  case (Cons l ls)
  then have q: "is_blank l \<or> is_h1 l \<or> is_h2 l \<or> is_h3 l" by simp
  obtain ps where ps: "docx_line (doc, cur) l = (doc @ ps, None)" "docx_items ps = []"
      "docx_headings 1 ps = (if is_h1 l then 1 else 0)"
      "docx_headings 2 ps = (if is_h2 l then 1 else 0)"
    using docx_line_quiet[OF q] by blast
  from Cons have "\<forall>l\<in>set ls. is_blank l \<or> is_h1 l \<or> is_h2 l \<or> is_h3 l" by simp
  from Cons.IH[OF this, of "doc @ ps" None]
  obtain qs where qs: "foldl docx_line (doc @ ps, None) ls = ((doc @ ps) @ qs, None)"
      "docx_items qs = []" "docx_headings 1 qs = length (filter is_h1 ls)"
      "docx_headings 2 qs = length (filter is_h2 ls)"
    by (auto split: if_splits)
  have "foldl docx_line (doc, cur) (l # ls) = (doc @ (ps @ qs), None)"
    using ps qs by simp
  moreover have "docx_items (ps @ qs) = []" using ps qs by (simp add: docx_items_append)
  moreover have "docx_headings 1 (ps @ qs) = length (filter is_h1 (l # ls))"
    using ps qs by (simp add: docx_headings_append)
  moreover have "docx_headings 2 (ps @ qs) = length (filter is_h2 (l # ls))"
    using ps qs by (simp add: docx_headings_append)
  ultimately show ?case by (intro exI[of _ "ps @ qs"]) simp
qed

lemma docx_structure_lines:
  assumes b: "is_bullet b1" "is_bullet b2" "is_bullet b3"
    and q: "\<forall>l\<in>set (pre @ post). is_blank l \<or> is_h1 l \<or> is_h2 l \<or> is_h3 l"
  shows "docx_structure (fst (foldl docx_line ([], None) (pre @ [b1, b2, b3] @ post))) =
           (length (filter is_h1 (pre @ post)), length (filter is_h2 (pre @ post)), [1]) \<and>
         docx_items (fst (foldl docx_line ([], None) (pre @ [b1, b2, b3] @ post))) =
           [drop 2 (strip b1) @ drop 2 (strip b2) @ drop 2 (strip b3)]"
proof -
  from q have qpre: "\<forall>l\<in>set pre. is_blank l \<or> is_h1 l \<or> is_h2 l \<or> is_h3 l"
    and qpost: "\<forall>l\<in>set post. is_blank l \<or> is_h1 l \<or> is_h2 l \<or> is_h3 l" by auto
  obtain ps where ps: "foldl docx_line ([], None) pre = ([] @ ps, None)"
      "docx_items ps = []" "docx_headings 1 ps = length (filter is_h1 pre)"
      "docx_headings 2 ps = length (filter is_h2 pre)"
    using docx_fold_quiet[OF qpre, of "[]" None] by (auto split: if_splits)
  let ?lb = "\<lparr>style = ListBullet, runs = [drop 2 (strip b1), drop 2 (strip b2), drop 2 (strip b3)]\<rparr>"
  have bl: "foldl docx_line (ps, None) [b1, b2, b3] = (ps @ [?lb], Some (length ps))"
    using docx_line_bullet(1)[OF b(1), of ps]
      docx_line_bullet(2)[OF b(2), of ps "[drop 2 (strip b1)]"]
      docx_line_bullet(2)[OF b(3), of ps "[drop 2 (strip b1), drop 2 (strip b2)]"]
    by simp
  obtain qs where qs: "fst (foldl docx_line (ps @ [?lb], Some (length ps)) post) = (ps @ [?lb]) @ qs"
      "docx_items qs = []" "docx_headings 1 qs = length (filter is_h1 post)"
      "docx_headings 2 qs = length (filter is_h2 post)"
    using docx_fold_quiet[OF qpost, of "ps @ [?lb]" "Some (length ps)"] by (metis fst_conv)
  have "fst (foldl docx_line ([], None) (pre @ [b1, b2, b3] @ post)) = ps @ [?lb] @ qs"
    using ps bl qs by simp
  moreover have "docx_lists (ps @ [?lb] @ qs) = [1]"
    using ps qs by (simp add: docx_lists_def docx_lists_skip docx_lists_close)
  moreover have "docx_items (ps @ [?lb] @ qs) =
      [drop 2 (strip b1) @ drop 2 (strip b2) @ drop 2 (strip b3)]"
    using ps qs by (simp add: docx_items_append) (simp add: docx_items_def paragraph_text_def)
  moreover have "docx_headings 1 (ps @ [?lb] @ qs) = length (filter is_h1 (pre @ post))"
    using ps qs by (simp add: docx_headings_append) (simp add: docx_headings_def)
  moreover have "docx_headings 2 (ps @ [?lb] @ qs) = length (filter is_h2 (pre @ post))"
    using ps qs by (simp add: docx_headings_append) (simp add: docx_headings_def)
  ultimately show ?thesis by (simp add: docx_structure_def)
qed


lemma pdf_headings_append:
  "pdf_headings k (a @ b) = pdf_headings k a + pdf_headings k b"
  by (simp add: pdf_headings_def)

lemma pdf_line_bullet:
  assumes "is_bullet l"
  shows "pdf_line l = [Paragraph (bullet_repl @ [32] @ drop 2 (strip l)) NormalSpaced, Spacer 1 6]"
proof -
  from assms obtain r where r: "strip l = 45 # 32 # r" using is_bullet_shape by blast
  show ?thesis by (simp add: pdf_line_def r lit_prefixes startswith_simps)
qed

lemma pdf_line_quiet:
  assumes "is_blank l \<or> is_h1 l \<or> is_h2 l \<or> is_h3 l"
  shows "(\<forall>f\<in>set (pdf_line l). \<not> is_pdf_bullet f) \<and>
         pdf_headings Title (pdf_line l) = (if is_h1 l then 1 else 0) \<and>
         pdf_headings Heading2 (pdf_line l) = (if is_h2 l then 1 else 0)"
proof -
  consider (b) "is_blank l" | (h1) "is_h1 l" | (h2) "is_h2 l" | (h3) "is_h3 l"
    using assms by blast
  then show ?thesis
  proof cases
    case b
    then have "strip l = []" by (simp add: is_blank_def)
    then have "pdf_line l = [Spacer 1 12]" "\<not> is_h1 l" "\<not> is_h2 l"
      by (simp_all add: pdf_line_def is_h1_def is_h2_def lit_prefixes startswith_simps)
    then show ?thesis by (simp add: pdf_headings_def)
  next
    case h1
    then obtain r where r: "strip l = 35 # 32 # r" using is_h1_shape by blast
    have "pdf_line l = [Paragraph r Title, Spacer 1 6]" "is_h1 l" "\<not> is_h2 l"
      by (simp_all add: pdf_line_def is_h1_def is_h2_def r lit_prefixes startswith_simps)
    then show ?thesis by (simp add: pdf_headings_def)
  next
    case h2
    then obtain r where r: "strip l = 35 # 35 # 32 # r" using is_h2_shape by blast
    have "pdf_line l = [Paragraph (lit ''<u>'' @ r @ lit ''</u>'') Heading2, Spacer 1 6]"
        "\<not> is_h1 l" "is_h2 l"
      by (simp_all add: pdf_line_def is_h1_def is_h2_def r lit_prefixes startswith_simps)
    then show ?thesis by (simp add: pdf_headings_def)
  next
    case h3
    then obtain r where r: "strip l = 35 # 35 # 35 # 32 # r" using is_h3_shape by blast
    have "pdf_line l = [Paragraph (lit ''<b>'' @ r @ lit ''</b>'') Heading3, Spacer 1 6]"
        "\<not> is_h1 l" "\<not> is_h2 l"
      by (simp_all add: pdf_line_def is_h1_def is_h2_def r lit_prefixes startswith_simps)
    then show ?thesis by (simp add: pdf_headings_def)
  qed
qed

lemma pdf_lines_quiet:
  assumes "\<forall>l\<in>set ls. is_blank l \<or> is_h1 l \<or> is_h2 l \<or> is_h3 l"
  shows "(\<forall>f\<in>set (concat (map pdf_line ls)). \<not> is_pdf_bullet f) \<and>
         pdf_headings Title (concat (map pdf_line ls)) = length (filter is_h1 ls) \<and>
         pdf_headings Heading2 (concat (map pdf_line ls)) = length (filter is_h2 ls)"
  using assms
proof (induction ls)
  case Nil
  show ?case by (simp add: pdf_headings_def)
next
  case (Cons l ls)
  then have "is_blank l \<or> is_h1 l \<or> is_h2 l \<or> is_h3 l" by simp
  from pdf_line_quiet[OF this] Cons show ?case
    by (auto simp: pdf_headings_append)
qed

lemma pdf_lists_skip:
  "\<forall>f\<in>set fs. \<not> is_pdf_bullet f \<Longrightarrow> pdf_lists_from 0 (fs @ rest) = pdf_lists_from 0 rest"
  by (induction fs) simp_all

lemma pdf_lists_close:
  "\<forall>f\<in>set fs. \<not> is_pdf_bullet f \<Longrightarrow> pdf_lists_from n fs = (if n = 0 then [] else [n])"
  by (induction fs arbitrary: n) simp_all

lemma pdf_lists_item:
  "pdf_lists_from n (Paragraph (bullet_repl @ 32 # t) NormalSpaced # Spacer 1 6 # fs) =
     pdf_lists_from (Suc n) fs"
  by (simp add: startswith_def)

lemma pdf_structure_lines:
  assumes b: "is_bullet b1" "is_bullet b2" "is_bullet b3"
    and q: "\<forall>l\<in>set (pre @ post). is_blank l \<or> is_h1 l \<or> is_h2 l \<or> is_h3 l"
  shows "pdf_structure (concat (map pdf_line (pre @ [b1, b2, b3] @ post))) =
           (length (filter is_h1 (pre @ post)), length (filter is_h2 (pre @ post)), [3])"
proof -
  from q have qpre: "\<forall>l\<in>set pre. is_blank l \<or> is_h1 l \<or> is_h2 l \<or> is_h3 l"
    and qpost: "\<forall>l\<in>set post. is_blank l \<or> is_h1 l \<or> is_h2 l \<or> is_h3 l" by auto
  let ?P = "concat (map pdf_line pre)" and ?Q = "concat (map pdf_line post)"
  let ?B = "\<lambda>l. Paragraph (bullet_repl @ [32] @ drop 2 (strip l)) NormalSpaced"
  let ?M = "[?B b1, Spacer 1 6, ?B b2, Spacer 1 6, ?B b3, Spacer 1 6]"
  have eq: "concat (map pdf_line (pre @ [b1, b2, b3] @ post)) = ?P @ ?M @ ?Q"
    using b by (simp add: pdf_line_bullet)
  note P = pdf_lines_quiet[OF qpre] and Q = pdf_lines_quiet[OF qpost]
  have "pdf_lists_from 0 (?P @ ?M @ ?Q) = pdf_lists_from 0 (?M @ ?Q)"
    using P by (simp add: pdf_lists_skip)
  also have "\<dots> = pdf_lists_from 3 ?Q"
    by (simp only: pdf_lists_item append_Cons append_Nil numeral_3_eq_3)
  also have "\<dots> = [3]" using Q by (simp add: pdf_lists_close)
  finally have lists: "pdf_lists_from 0 (?P @ ?M @ ?Q) = [3]" .
  have M: "pdf_headings Title (?M @ ?Q) = pdf_headings Title ?Q"
      "pdf_headings Heading2 (?M @ ?Q) = pdf_headings Heading2 ?Q"
    by (simp_all add: pdf_headings_def)
  have "pdf_headings Title (?P @ ?M @ ?Q) = length (filter is_h1 (pre @ post))"
    using P Q by (simp only: pdf_headings_append[of _ ?P] M) simp
  moreover have "pdf_headings Heading2 (?P @ ?M @ ?Q) = length (filter is_h2 (pre @ post))"
    using P Q by (simp only: pdf_headings_append[of _ ?P] M) simp
  ultimately show ?thesis using lists eq by (simp only: pdf_structure_def)
qed

text \<open>
  What the two renderers make of every document of the claim's shape (one \<open># \<close>
  heading, one \<open>## \<close> heading, three consecutive bullet lines, otherwise blank lines
  and \<open>### \<close> headings): the PDF story has a block of three bullet paragraphs, the DOCX
  document a single list item whose text is the three bullet texts run together.
\<close>

lemma render_bullets:
  assumes "split_nl md = pre @ [b1, b2, b3] @ post"
    and "is_bullet b1" "is_bullet b2" "is_bullet b3"
    and "\<forall>l\<in>set (pre @ post). is_blank l \<or> is_h1 l \<or> is_h2 l \<or> is_h3 l"
    and "length (filter is_h1 (pre @ post)) = 1"
    and "length (filter is_h2 (pre @ post)) = 1"
  shows "docx_structure (create_docx md) = (1, 1, [1])"
    and "docx_items (create_docx md) = [drop 2 (strip b1) @ drop 2 (strip b2) @ drop 2 (strip b3)]"
    and "pdf_structure (create_pdf md) = (1, 1, [3])"
  using assms docx_structure_lines[of b1 b2 b3 pre post] pdf_structure_lines[of b1 b2 b3 pre post]
  by (simp_all add: create_docx_def create_pdf_def)

text \<open>
  Claim C1 does not hold of \<open>_create_docx\<close>. For the document of the scenario
  (a \<open># \<close> heading, a \<open>## \<close> heading and three consecutive bullet lines) the claim
  expects one list of three items from both renderers. \<open>_create_pdf\<close> emits a block
  of three bullet paragraphs. \<open>_create_docx\<close> opens one \<open>List Bullet\<close> paragraph at
  the first bullet and adds the later bullets to it as runs, so the document has a
  single list item, with the text \<open>Built XLed YShipped Z\<close>. When a text line stands
  directly above the bullets, as the date line does in the layout the generation prompt
  asks for, the bullets become runs of that line's paragraph and the DOCX document has no
  list item at all, while the PDF story still has the three bullet paragraphs.
\<close>

theorem docx_bullets_merged:
  "docx_structure (create_docx (lit ''# Jane Doe'' @ [10, 10] @ lit ''## Experience'' @ [10] @
      lit ''- Built X'' @ [10] @ lit ''- Led Y'' @ [10] @ lit ''- Shipped Z'')) = (1, 1, [1]) \<and>
   docx_items (create_docx (lit ''# Jane Doe'' @ [10, 10] @ lit ''## Experience'' @ [10] @
      lit ''- Built X'' @ [10] @ lit ''- Led Y'' @ [10] @ lit ''- Shipped Z'')) =
     [lit ''Built XLed YShipped Z''] \<and>
   pdf_structure (create_pdf (lit ''# Jane Doe'' @ [10, 10] @ lit ''## Experience'' @ [10] @
      lit ''- Built X'' @ [10] @ lit ''- Led Y'' @ [10] @ lit ''- Shipped Z'')) = (1, 1, [3]) \<and>
   create_docx (lit ''# Jane Doe'' @ [10] @ lit ''## Experience'' @ [10] @
      lit ''2019 - 2021'' @ [10] @ lit ''- Built X'' @ [10] @ lit ''- Led Y'' @ [10] @
      lit ''- Shipped Z'') =
     [\<lparr>style = Heading 1, runs = [lit ''Jane Doe'']\<rparr>,
      \<lparr>style = Heading 2, runs = [lit ''Experience'']\<rparr>,
      \<lparr>style = Normal,
       runs = [lit ''2019 - 2021'', lit ''Built X'', lit ''Led Y'', lit ''Shipped Z'']\<rparr>] \<and>
   docx_structure (create_docx (lit ''# Jane Doe'' @ [10] @ lit ''## Experience'' @ [10] @
      lit ''2019 - 2021'' @ [10] @ lit ''- Built X'' @ [10] @ lit ''- Led Y'' @ [10] @
      lit ''- Shipped Z'')) = (1, 1, []) \<and>
   pdf_structure (create_pdf (lit ''# Jane Doe'' @ [10] @ lit ''## Experience'' @ [10] @
      lit ''2019 - 2021'' @ [10] @ lit ''- Built X'' @ [10] @ lit ''- Led Y'' @ [10] @
      lit ''- Shipped Z'')) = (1, 1, [3])"
  by (simp add: create_docx_def create_pdf_def docx_line_def pdf_line_def lit_def strip_def
      isspace_def startswith_def add_heading_def add_run_def docx_structure_def pdf_structure_def
      docx_headings_def docx_lists_def docx_items_def paragraph_text_def pdf_headings_def
      bullet_repl_def)

section \<open>Orchestrator: retries and cancellation\<close>

lemma upt3: "[0..<max_retries + 1] = [0, 1, 2]"
  by (simp add: max_retries_def upt_rec)

lemma iteration_fail:
  assumes "try_body w = Inl e" "is_Exception e"
  shows "iteration attempt w =
     (if attempt = max_retries then ([], Raise e) else ([Sleep (retry_delay * (attempt + 1))], Continue))"
  using assms by (cases e) (simp_all add: iteration_def inner_handlers_def outer_handlers_def)

lemma iteration_cancel:
  "iteration attempt (Raises CancelledError) = ([], Raise CancelledError)"
  by (simp add: iteration_def try_body_def inner_handlers_def outer_handlers_def)

lemma attempt_loop_attempts:
  "length (filter is_attempt (fst (attempt_loop transport as))) \<le> length as"
proof (induction as)
  case Nil
  show ?case by simp
next
  case (Cons a as)
  have it: "\<forall>ev\<in>set (fst (iteration a w)). \<not> is_attempt ev" for w
    by (auto simp: iteration_def inner_handlers_def outer_handlers_def
        split: sum.splits prod.splits flow.splits if_splits)
  show ?case
    using Cons it[of "transport a"]
    by (auto split: prod.splits flow.splits simp: filter_empty_conv)
qed

lemma make_request_loop:
  "enabled \<Longrightarrow> list_all well_formed messages \<Longrightarrow>
     make_request enabled messages transport = attempt_loop transport [0, 1, 2]"
  unfolding make_request_def upt3 by simp

lemma attempt_loop_cancel:
  "transport a = Raises CancelledError \<Longrightarrow>
     attempt_loop transport (a # rest) = ([Attempt a], Inl CancelledError)"
  by (simp add: iteration_cancel)

lemma attempt_loop_retry:
  assumes "try_body (transport a) = Inl e" "is_Exception e" "a \<noteq> max_retries"
  shows "attempt_loop transport (a # rest) =
     (Attempt a # Sleep (retry_delay * (a + 1)) # fst (attempt_loop transport rest),
      snd (attempt_loop transport rest))"
  using iteration_fail[OF assms(1,2), of a] assms(3)
  by (simp split: prod.splits)

lemma attempt_loop_last:
  assumes "try_body (transport a) = Inl e" "is_Exception e" "a = max_retries"
  shows "attempt_loop transport (a # rest) = ([Attempt a], Inl e)"
  using iteration_fail[OF assms(1,2), of a] assms(3)
  by simp

lemma not_last: "(0::nat) \<noteq> max_retries" "(1::nat) \<noteq> max_retries" "(2::nat) = max_retries"
  by (simp_all add: max_retries_def)

lemma loop_tail:
  assumes "try_body (transport 2) = Inl e2" "is_Exception e2"
  shows "attempt_loop transport [2] = ([Attempt 2], Inl e2)"
  by (rule attempt_loop_last[where e = e2]) (simp_all add: assms max_retries_def)

lemma loop_step1:
  assumes "try_body (transport 1) = Inl e1" "is_Exception e1"
    and "attempt_loop transport [2] = (evs, r)"
  shows "attempt_loop transport [1, 2] = (Attempt 1 # Sleep (retry_delay * 2) # evs, r)"
  unfolding attempt_loop_retry[of transport 1 e1 "[2]", OF assms(1,2) not_last(2)] assms(3)
  by simp

lemma loop_step0:
  assumes "try_body (transport 0) = Inl e0" "is_Exception e0"
    and "attempt_loop transport [1, 2] = (evs, r)"
  shows "attempt_loop transport [0, 1, 2] = (Attempt 0 # Sleep (retry_delay * 1) # evs, r)"
  unfolding attempt_loop_retry[of transport 0 e0 "[1, 2]", OF assms(1,2) not_last(1)] assms(3)
  by simp

text \<open>
  Claim C2. The orchestrator never makes more than \<open>max_retries + 1\<close> attempts. When
  the client is configured, the messages are well formed and every attempt fails
  (times out, or raises or produces another \<open>Exception\<close>), it makes exactly the three
  attempts 0, 1, 2, sleeps \<open>retry_delay * 1\<close> and \<open>retry_delay * 2\<close> seconds between
  them, and after the last attempt fails with that attempt's error, with no further
  attempt. (The error raised once the retries are used up is the last attempt's own
  exception.)
\<close>

theorem make_request_retries:
  "length (filter is_attempt (fst (make_request enabled messages transport))) \<le> max_retries + 1 \<and>
   (enabled \<and> list_all well_formed messages \<and>
    (\<forall>a. \<exists>e. try_body (transport a) = Inl e \<and> is_Exception e) \<longrightarrow>
      fst (make_request enabled messages transport) =
        [Attempt 0, Sleep (retry_delay * 1), Attempt 1, Sleep (retry_delay * 2), Attempt 2] \<and>
      snd (make_request enabled messages transport) = try_body (transport max_retries))"
proof
  show "length (filter is_attempt (fst (make_request enabled messages transport))) \<le> max_retries + 1"
    using attempt_loop_attempts[of transport "[0..<max_retries + 1]"]
    by (simp add: make_request_def)
next
  show "enabled \<and> list_all well_formed messages \<and>
    (\<forall>a. \<exists>e. try_body (transport a) = Inl e \<and> is_Exception e) \<longrightarrow>
      fst (make_request enabled messages transport) =
        [Attempt 0, Sleep (retry_delay * 1), Attempt 1, Sleep (retry_delay * 2), Attempt 2] \<and>
      snd (make_request enabled messages transport) = try_body (transport max_retries)"
  proof (intro impI, elim conjE)
    assume en: enabled and wf: "list_all well_formed messages"
      and f: "\<forall>a. \<exists>e. try_body (transport a) = Inl e \<and> is_Exception e"
    from f obtain e0 where e0: "try_body (transport 0) = Inl e0" "is_Exception e0" by blast
    from f obtain e1 where e1: "try_body (transport 1) = Inl e1" "is_Exception e1" by blast
    from f obtain e2 where e2: "try_body (transport 2) = Inl e2" "is_Exception e2" by blast
    note l2 = loop_tail[of transport e2, OF e2]
    note l1 = loop_step1[of transport e1, OF e1 l2]
    note l0 = loop_step0[of transport e0, OF e0 l1]
    have "try_body (transport max_retries) = Inl e2" using e2 by (simp add: max_retries_def)
    then show "fst (make_request enabled messages transport) =
        [Attempt 0, Sleep (retry_delay * 1), Attempt 1, Sleep (retry_delay * 2), Attempt 2] \<and>
      snd (make_request enabled messages transport) = try_body (transport max_retries)"
      unfolding make_request_loop[OF en wf] l0 by simp
  qed
qed

theorem make_request_retries_witness:
  "fst (make_request True [[(''role'', lit ''user''), (''content'', lit ''hi'')]] (\<lambda>a. Raises TimeoutError)) =
     [Attempt 0, Sleep 1, Attempt 1, Sleep 2, Attempt 2] \<and>
   snd (make_request True [[(''role'', lit ''user''), (''content'', lit ''hi'')]] (\<lambda>a. Raises TimeoutError)) =
     Inl TimeoutError"
  using make_request_retries[of True "[[(''role'', lit ''user''), (''content'', lit ''hi'')]]" "\<lambda>a. Raises TimeoutError"]
  by (simp add: well_formed_def try_body_def retry_delay_def)

text \<open>
  Claim C3. When the caller is cancelled while attempt \<open>k\<close> is in flight (the await of
  that attempt raises \<open>CancelledError\<close>; the attempts before it failed and were
  retried), the request ends with \<open>CancelledError\<close> itself, attempt \<open>k\<close> is the last
  thing it did, and the attempts made are exactly 0 to \<open>k\<close>.
\<close>

theorem make_request_cancelled:
  assumes "enabled" "list_all well_formed messages" "k \<le> max_retries"
    and "\<forall>a<k. \<exists>e. try_body (transport a) = Inl e \<and> is_Exception e"
    and "transport k = Raises CancelledError"
  shows "snd (make_request enabled messages transport) = Inl CancelledError \<and>
         filter is_attempt (fst (make_request enabled messages transport)) = map Attempt [0..<Suc k] \<and>
         last (fst (make_request enabled messages transport)) = Attempt k"
proof -
  note loop = make_request_loop[OF assms(1,2), of transport]
  from assms(3) consider "k = 0" | "k = 1" | "k = 2"
    by (auto simp: max_retries_def le_Suc_eq numeral_2_eq_2)
  then show ?thesis
  proof cases
    case 1
    with assms(5) have "attempt_loop transport [0, 1, 2] = ([Attempt 0], Inl CancelledError)"
      by (intro attempt_loop_cancel) simp
    with 1 show ?thesis unfolding loop by simp
  next
    case 2
    with assms(4) have "\<exists>e. try_body (transport 0) = Inl e \<and> is_Exception e" by simp
    then obtain e0 where e0: "try_body (transport 0) = Inl e0" "is_Exception e0" by blast
    from 2 assms(5) have "attempt_loop transport [1, 2] = ([Attempt 1], Inl CancelledError)"
      by (intro attempt_loop_cancel) simp
    note l0 = loop_step0[of transport e0, OF e0 this]
    from 2 show ?thesis unfolding loop l0 by (simp add: upt_rec)
  next
    case 3
    with assms(4) have "\<exists>e. try_body (transport 0) = Inl e \<and> is_Exception e"
      and "\<exists>e. try_body (transport 1) = Inl e \<and> is_Exception e" by simp_all
    then obtain e0 e1 where e0: "try_body (transport 0) = Inl e0" "is_Exception e0"
      and e1: "try_body (transport 1) = Inl e1" "is_Exception e1" by blast
    from 3 assms(5) have "attempt_loop transport [2] = ([Attempt 2], Inl CancelledError)"
      by (intro attempt_loop_cancel) simp
    note l1 = loop_step1[of transport e1, OF e1 this]
    note l0 = loop_step0[of transport e0, OF e0 l1]
    from 3 show ?thesis unfolding loop l0 by (simp add: upt_rec)
  qed
qed

theorem make_request_cancelled_witness:
  "snd (make_request True [[(''role'', lit ''user''), (''content'', lit ''hi'')]]
         (\<lambda>a. if a = 0 then Raises TimeoutError else Raises CancelledError)) = Inl CancelledError \<and>
   filter is_attempt (fst (make_request True [[(''role'', lit ''user''), (''content'', lit ''hi'')]]
         (\<lambda>a. if a = 0 then Raises TimeoutError else Raises CancelledError))) = [Attempt 0, Attempt 1]"
proof -
  let ?t = "\<lambda>a::nat. if a = 0 then Raises TimeoutError else Raises CancelledError"
  let ?m = "[[(''role'', lit ''user''), (''content'', lit ''hi'')]]"
  have h: "True" "list_all well_formed ?m" "1 \<le> max_retries"
      "\<forall>a<1. \<exists>e. try_body (?t a) = Inl e \<and> is_Exception e" "?t 1 = Raises CancelledError"
    by (simp_all add: well_formed_def max_retries_def try_body_def)
  from make_request_cancelled[OF h] show ?thesis by (simp add: upt_rec)
qed

section \<open>Interpreter: fenced and bare responses\<close>

lemma rstrip_snoc: "\<not> isspace c \<Longrightarrow> rstrip (s @ [c]) = s @ [c]"
  by (induction s) simp_all

lemma strip_fenced: "strip (fenced lang body) = fenced lang body"
proof -
  have "fenced lang body = ([96, 96, 96] @ lang @ [10] @ body @ [10, 96, 96]) @ [96]"
    by (simp add: fenced_def)
  moreover have "\<not> isspace 96" by (simp add: isspace_def)
  ultimately have "rstrip (fenced lang body) = fenced lang body"
    using rstrip_snoc by metis
  moreover have "dropWhile isspace (fenced lang body) = fenced lang body"
    using \<open>\<not> isspace 96\<close> by (simp add: fenced_def)
  ultimately show ?thesis by (simp add: strip_def)
qed

lemma find_close_body:
  "no_nl_tick body \<Longrightarrow> find_close (body @ [10, 96, 96, 96]) = Some body"
  by (induction body rule: no_nl_tick.induct) (auto simp: startswith_simps)

lemma fence_at_fenced:
  assumes "no_nl_tick body" "lang = [] \<or> lang = lit ''json''"
  shows "fence_at (fenced lang body) = Some body"
proof -
  from assms(2) show ?thesis
  proof
    assume "lang = []"
    then show ?thesis
      using find_close_body[OF assms(1)]
      by (simp add: fence_at_def fenced_def startswith_simps lit_def)
  next
    assume "lang = lit ''json''"
    then show ?thesis
      using find_close_body[OF assms(1)]
      by (simp add: fence_at_def fenced_def startswith_simps lit_def)
  qed
qed

lemma search_fence_fenced:
  assumes "no_nl_tick body" "lang = [] \<or> lang = lit ''json''"
  shows "search_fence (fenced lang body) = Some body"
proof -
  have "fenced lang body = 96 # tl (fenced lang body)" by (simp add: fenced_def)
  then have "search_fence (fenced lang body) =
      (case fence_at (fenced lang body) of Some g \<Rightarrow> Some g | None \<Rightarrow> search_fence (tl (fenced lang body)))"
    by (metis search_fence.simps(2))
  then show ?thesis by (simp add: fence_at_fenced[OF assms])
qed

text \<open>
  Claim C5. Let a text parse as JSON (after stripping) to some value. Then the
  response made of that text inside a fenced code block, opened by three backticks or
  by three backticks and \<open>json\<close>, is interpreted to the same result as the bare text.
  What is assumed of \<open>json.loads\<close> holds of the real one: a text that starts with a
  backtick is rejected with \<open>JSONDecodeError\<close>, and in a JSON text no newline is
  directly followed by a backtick, since a JSON string holds no raw newline.
\<close>

theorem fenced_same_as_bare:
  assumes "loads (strip body) = Inr parsed"
    and "no_nl_tick body"
    and "\<forall>t. startswith t [96] \<longrightarrow> (\<exists>m. loads t = Inl (JSONDecodeError m))"
    and "lang = [] \<or> lang = lit ''json''"
  shows "parse_response loads (fenced lang body) = parse_response loads body \<and>
         parse_response loads body = Inr parsed \<and>
         interpret_response loads str_to_float resume_text (fenced lang body) =
           interpret_response loads str_to_float resume_text body"
proof -
  have "startswith (fenced lang body) [96]" by (simp add: fenced_def startswith_simps)
  with assms(3) obtain m where m: "loads (fenced lang body) = Inl (JSONDecodeError m)" by blast
  have f: "parse_response loads (fenced lang body) = Inr parsed"
    by (simp add: parse_response_def strip_fenced m search_fence_fenced[OF assms(2,4)] assms(1))
  have b: "parse_response loads body = Inr parsed"
    by (simp add: parse_response_def assms(1))
  from f b show ?thesis by (simp add: interpret_response_def)
qed

theorem fenced_same_as_bare_witness:
  "parse_response (\<lambda>t. if t = lit ''{}'' then Inr (JObj []) else Inl (JSONDecodeError ''Expecting value''))
      (fenced (lit ''json'') (lit ''{}'')) = Inr (JObj []) \<and>
   parse_response (\<lambda>t. if t = lit ''{}'' then Inr (JObj []) else Inl (JSONDecodeError ''Expecting value''))
      (lit ''{}'') = Inr (JObj [])"
proof -
  let ?loads = "\<lambda>t. if t = lit ''{}'' then Inr (JObj []) else Inl (JSONDecodeError ''Expecting value'')"
  have s: "strip (lit ''{}'') = lit ''{}''" by (simp add: strip_def lit_def isspace_def)
  have h1: "?loads (strip (lit ''{}'')) = Inr (JObj [])" by (simp add: s)
  have h2: "no_nl_tick (lit ''{}'')" by (simp add: lit_def)
  have h3: "\<forall>t. startswith t [96] \<longrightarrow> (\<exists>m. ?loads t = Inl (JSONDecodeError m))"
    by (auto simp: lit_def startswith_def)
  have h4: "lit ''json'' = [] \<or> lit ''json'' = lit ''json''" by simp
  from fenced_same_as_bare[of ?loads, OF h1 h2 h3 h4] show ?thesis by simp
qed

section \<open>Interpreter: required fields and defaults\<close>

lemma py_clamp_range: "\<exists>q. py_max (Fin 0) (py_min (Fin 100) x) = Fin q \<and> 0 \<le> q \<and> q \<le> 100"
  by (cases x) (auto simp: py_max_def py_min_def)

lemma clamp_score_range:
  "clamp_score str_to_float v = Inr x \<Longrightarrow> \<exists>q. x = Fin q \<and> 0 \<le> q \<and> q \<le> 100"
  using py_clamp_range
  by (auto simp: clamp_score_def split: sum.splits exn.splits)

lemma list_suggestions_list: "list_suggestions v = Inr s \<Longrightarrow> \<exists>xs. s = JArr xs"
  by (auto simp: list_suggestions_def split: json.splits)

lemma lit_keys:
  "lit ''score'' \<noteq> lit ''status''" "lit ''score'' \<noteq> lit ''suggestions''"
  "lit ''score'' \<noteq> lit ''keywords_matched''" "lit ''score'' \<noteq> lit ''missing_keywords''"
  "lit ''suggestions'' \<noteq> lit ''status''" "lit ''suggestions'' \<noteq> lit ''keywords_matched''"
  "lit ''suggestions'' \<noteq> lit ''missing_keywords''"
  "lit ''optimized_text'' \<noteq> lit ''score''" "lit ''optimized_text'' \<noteq> lit ''suggestions''"
  "lit ''optimized_text'' \<noteq> lit ''status''" "lit ''optimized_text'' \<noteq> lit ''keywords_matched''"
  "lit ''optimized_text'' \<noteq> lit ''missing_keywords''" "lit ''optimized_text'' \<noteq> lit ''error''"
  "lit ''keywords_matched'' \<noteq> lit ''missing_keywords''" "lit ''keywords_matched'' \<noteq> lit ''status''"
  "lit ''missing_keywords'' \<noteq> lit ''status''"
  "lit ''score'' \<noteq> lit ''error''" "lit ''status'' \<noteq> lit ''error''" "lit ''suggestions'' \<noteq> lit ''error''"
  "lit ''error'' \<noteq> lit ''keywords_matched''" "lit ''error'' \<noteq> lit ''missing_keywords''"
  by (simp_all add: lit_def)

lemma finish_result_ok:
  assumes "finish_result str_to_float parsed = Inr r"
  shows "score_in_range (r (lit ''score'')) \<and> (\<exists>xs. r (lit ''suggestions'') = Some (JArr xs)) \<and>
         r (lit ''optimized_text'') \<noteq> None \<and>
         r (lit ''keywords_matched'') \<noteq> None \<and> r (lit ''missing_keywords'') \<noteq> None \<and>
         r (lit ''status'') = Some (JStr (lit ''success''))"
proof (cases parsed)
  case (JObj kvs)
  let ?d = "dict_of kvs"
  from assms JObj obtain score sugg where
    s: "clamp_score str_to_float (the (?d (lit ''score''))) = Inr score"
    and g: "list_suggestions (the (?d (lit ''suggestions''))) = Inr sugg"
    and r: "r = ?d(lit ''score'' \<mapsto> JFloat score, lit ''suggestions'' \<mapsto> sugg,
        lit ''keywords_matched'' \<mapsto> get_default ?d (lit ''keywords_matched'') (JArr []),
        lit ''missing_keywords'' \<mapsto> get_default ?d (lit ''missing_keywords'') (JArr []),
        lit ''status'' \<mapsto> JStr (lit ''success''))"
    by (auto simp: finish_result_def Let_def split: if_splits sum.splits)
  from assms JObj have ot: "?d (lit ''optimized_text'') \<noteq> None"
    by (auto simp: finish_result_def Let_def required_fields_def split: if_splits)
  from clamp_score_range[OF s] obtain q where q: "score = Fin q" "0 \<le> q" "q \<le> 100" by blast
  from list_suggestions_list[OF g] obtain xs where xs: "sugg = JArr xs" by blast
  have k: "lit ''score'' \<noteq> lit ''status''" "lit ''score'' \<noteq> lit ''suggestions''"
    "lit ''score'' \<noteq> lit ''keywords_matched''" "lit ''score'' \<noteq> lit ''missing_keywords''"
    "lit ''suggestions'' \<noteq> lit ''status''" "lit ''suggestions'' \<noteq> lit ''keywords_matched''"
    "lit ''suggestions'' \<noteq> lit ''missing_keywords''"
    "lit ''keywords_matched'' \<noteq> lit ''missing_keywords''" "lit ''keywords_matched'' \<noteq> lit ''status''"
    "lit ''missing_keywords'' \<noteq> lit ''status''"
    by (simp_all add: lit_def)
  show ?thesis
    unfolding r q xs using q(2,3) k ot lit_keys by simp
next
  case JNull
  with assms show ?thesis by (simp add: finish_result_def)
next
  case (JBool b)
  with assms show ?thesis by (simp add: finish_result_def)
next
  case (JInt i)
  with assms show ?thesis by (simp add: finish_result_def)
next
  case (JFloat x)
  with assms show ?thesis by (simp add: finish_result_def)
next
  case (JStr s)
  with assms show ?thesis by (simp add: finish_result_def split: if_splits)
next
  case (JArr xs)
  with assms show ?thesis by (simp add: finish_result_def split: if_splits)
qed


lemma finish_result_missing:
  "\<exists>field\<in>set required_fields. dict_of kvs field = None \<Longrightarrow>
     finish_result str_to_float (JObj kvs) = Inl (ValueError ''Missing required field in response'')"
  by (simp add: finish_result_def)

lemma finish_result_present:
  assumes "\<forall>field\<in>set required_fields. dict_of kvs field \<noteq> None"
    and "\<forall>m. py_float str_to_float (the (dict_of kvs (lit ''score''))) \<noteq> Inl (OverflowError m)"
    and "(\<exists>xs. dict_of kvs (lit ''suggestions'') = Some (JArr xs)) \<or>
         (\<exists>t. dict_of kvs (lit ''suggestions'') = Some (JStr t))"
  shows "\<exists>r. finish_result str_to_float (JObj kvs) = Inr r"
proof -
  have "\<exists>x. clamp_score str_to_float (the (dict_of kvs (lit ''score''))) = Inr x"
    using assms(2)
    by (auto simp: clamp_score_def py_float_def split: sum.splits exn.splits json.splits option.splits if_splits)
  moreover have "\<exists>g. list_suggestions (the (dict_of kvs (lit ''suggestions''))) = Inr g"
    using assms(3) by (auto simp: list_suggestions_def)
  ultimately show ?thesis
    using assms(1) by (auto simp: finish_result_def Let_def)
qed

lemma parse_error_result_fields:
  "parse_error_result resume_text e (lit ''optimized_text'') = Some (JStr resume_text)"
  "parse_error_result resume_text e (lit ''score'') = Some (JFloat (Fin 0))"
  "parse_error_result resume_text e (lit ''status'') = Some (JStr (lit ''error''))"
  "\<exists>xs. parse_error_result resume_text e (lit ''suggestions'') = Some (JArr xs)"
  using lit_keys by (simp_all add: parse_error_result_def)

lemma strip_examples:
  "strip response_no_score = response_no_score" "strip response_full = response_full"
  by (simp_all add: response_no_score_def response_full_def strip_def lit_def dq_def isspace_def)

lemma example_distinct: "response_full \<noteq> response_no_score"
  by (simp add: response_no_score_def response_full_def lit_def dq_def)

lemma parse_examples:
  "parse_response example_loads response_no_score =
     Inr (JObj [(lit ''optimized_text'', JStr (lit ''Better resume'')), (lit ''suggestions'', JArr [])])"
  "parse_response example_loads response_full =
     Inr (JObj [(lit ''optimized_text'', JStr (lit ''Better resume'')), (lit ''score'', JInt 120),
                (lit ''suggestions'', JStr (lit ''Add metrics''))])"
  by (simp_all add: parse_response_def strip_examples example_loads_def example_distinct)

lemma plain_facts: "strip plain_resume = plain_resume" "\<not> too_short plain_resume"
proof -
  have "\<not> isspace 115" by (simp add: isspace_def)
  then have "rstrip plain_resume = plain_resume"
    using rstrip_snoc[of 115 "lit ''Jane Doe, data engineer with ten years of experience in analytic''"]
    by (simp add: plain_resume_def lit_def)
  moreover have "dropWhile isspace plain_resume = plain_resume"
    by (simp add: plain_resume_def lit_def isspace_def)
  ultimately show "strip plain_resume = plain_resume" by (simp add: strip_def)
  then show "\<not> too_short plain_resume"
    by (simp add: too_short_def) (simp add: plain_resume_def lit_def)
qed

lemma clamp_score_value:
  assumes "\<forall>m. py_float str_to_float v \<noteq> Inl (OverflowError m)"
  shows "clamp_score str_to_float v =
           Inr (case py_float str_to_float v of
                  Inr x \<Rightarrow> py_max (Fin 0) (py_min (Fin 100) x)
                | Inl e \<Rightarrow> Fin 0)"
  using assms
  by (auto simp: clamp_score_def py_float_def split: json.splits option.splits if_splits)

lemma optimize_resume_parsed:
  assumes "\<not> too_short resume_text"
    and "parse_response loads response = Inr parsed"
  shows "optimize_resume loads str_to_float True (Inr response) resume_text =
           (case finish_result str_to_float parsed of
              Inr result \<Rightarrow> Inr result
            | Inl e \<Rightarrow> if is_Exception e then Inr (parse_error_result resume_text e) else Inl e)"
  using assms
  by (simp add: optimize_resume_def interpret_response_def split: sum.splits)

text \<open>
  Claim C6, as amended. Take a resume text that passes the length guard, an enabled
  client and a response that parses to a JSON object. When the object lacks one of the
  required fields \<open>optimized_text\<close>, \<open>score\<close>, \<open>suggestions\<close>, \<open>optimize_resume\<close>
  rejects the whole result: it returns the error dictionary, with status \<open>error\<close>, the
  original resume text and score 0. When all three are present (the score not an
  integer beyond the float range, the suggestions a list or a string), it returns the
  parsed object with these fields set: \<open>score\<close> is \<open>max(0, min(100, float(score)))\<close>,
  and 0.0 when \<open>float\<close> raises because the score is not numeric, so it lies between 0
  and 100; \<open>suggestions\<close> stays when it is a list and is split into its non-blank lines
  when it is a string; \<open>keywords_matched\<close> and \<open>missing_keywords\<close> keep their value
  and are the empty list when absent; \<open>status\<close> is \<open>success\<close>; every other field,
  \<open>optimized_text\<close> among them, is as parsed.
\<close>

theorem missing_field_rejected:
  assumes "\<not> too_short resume_text"
    and "parse_response loads response = Inr (JObj kvs)"
  shows
    "((\<exists>field\<in>set required_fields. dict_of kvs field = None) \<longrightarrow>
        optimize_resume loads str_to_float True (Inr response) resume_text =
          Inr (parse_error_result resume_text (ValueError ''Missing required field in response'')) \<and>
        parse_error_result resume_text (ValueError ''Missing required field in response'')
            (lit ''status'') = Some (JStr (lit ''error'')) \<and>
        parse_error_result resume_text (ValueError ''Missing required field in response'')
            (lit ''optimized_text'') = Some (JStr resume_text) \<and>
        parse_error_result resume_text (ValueError ''Missing required field in response'')
            (lit ''score'') = Some (JFloat (Fin 0))) \<and>
     ((\<forall>field\<in>set required_fields. dict_of kvs field \<noteq> None) \<and>
        (\<forall>m. py_float str_to_float (the (dict_of kvs (lit ''score''))) \<noteq> Inl (OverflowError m)) \<and>
        ((\<exists>xs. dict_of kvs (lit ''suggestions'') = Some (JArr xs)) \<or>
         (\<exists>t. dict_of kvs (lit ''suggestions'') = Some (JStr t))) \<longrightarrow>
        optimize_resume loads str_to_float True (Inr response) resume_text =
          Inr ((dict_of kvs)
            (lit ''score'' \<mapsto>
               JFloat (case py_float str_to_float (the (dict_of kvs (lit ''score''))) of
                         Inr x \<Rightarrow> py_max (Fin 0) (py_min (Fin 100) x)
                       | Inl e \<Rightarrow> Fin 0),
             lit ''suggestions'' \<mapsto>
               (case the (dict_of kvs (lit ''suggestions'')) of
                  JStr t \<Rightarrow> JArr (map JStr (filter (\<lambda>l. strip l \<noteq> []) (split_nl t)))
                | v \<Rightarrow> v),
             lit ''keywords_matched'' \<mapsto>
               (case dict_of kvs (lit ''keywords_matched'') of Some v \<Rightarrow> v | None \<Rightarrow> JArr []),
             lit ''missing_keywords'' \<mapsto>
               (case dict_of kvs (lit ''missing_keywords'') of Some v \<Rightarrow> v | None \<Rightarrow> JArr []),
             lit ''status'' \<mapsto> JStr (lit ''success''))) \<and>
        score_in_range (Some (JFloat
          (case py_float str_to_float (the (dict_of kvs (lit ''score''))) of
             Inr x \<Rightarrow> py_max (Fin 0) (py_min (Fin 100) x)
           | Inl e \<Rightarrow> Fin 0))))"
proof (intro conjI impI)
  assume "\<exists>field\<in>set required_fields. dict_of kvs field = None"
  then have "finish_result str_to_float (JObj kvs) =
      Inl (ValueError ''Missing required field in response'')"
    by (rule finish_result_missing)
  then show "optimize_resume loads str_to_float True (Inr response) resume_text =
      Inr (parse_error_result resume_text (ValueError ''Missing required field in response''))"
    using optimize_resume_parsed[OF assms, of str_to_float] by simp
next
  show "parse_error_result resume_text (ValueError ''Missing required field in response'')
            (lit ''status'') = Some (JStr (lit ''error''))"
    by (rule parse_error_result_fields)
next
  show "parse_error_result resume_text (ValueError ''Missing required field in response'')
            (lit ''optimized_text'') = Some (JStr resume_text)"
    by (rule parse_error_result_fields)
next
  show "parse_error_result resume_text (ValueError ''Missing required field in response'')
            (lit ''score'') = Some (JFloat (Fin 0))"
    by (rule parse_error_result_fields)
next
  assume a: "(\<forall>field\<in>set required_fields. dict_of kvs field \<noteq> None) \<and>
        (\<forall>m. py_float str_to_float (the (dict_of kvs (lit ''score''))) \<noteq> Inl (OverflowError m)) \<and>
        ((\<exists>xs. dict_of kvs (lit ''suggestions'') = Some (JArr xs)) \<or>
         (\<exists>t. dict_of kvs (lit ''suggestions'') = Some (JStr t)))"
  let ?d = "dict_of kvs"
  from a have p: "\<not> (\<exists>field\<in>set required_fields. ?d field = None)" by simp
  from a have c: "clamp_score str_to_float (the (?d (lit ''score''))) =
      Inr (case py_float str_to_float (the (?d (lit ''score''))) of
             Inr x \<Rightarrow> py_max (Fin 0) (py_min (Fin 100) x)
           | Inl e \<Rightarrow> Fin 0)"
    by (intro clamp_score_value) simp
  from a have g: "list_suggestions (the (?d (lit ''suggestions''))) =
      Inr (case the (?d (lit ''suggestions'')) of
             JStr t \<Rightarrow> JArr (map JStr (filter (\<lambda>l. strip l \<noteq> []) (split_nl t)))
           | v \<Rightarrow> v)"
    by (auto simp: list_suggestions_def)
  have "finish_result str_to_float (JObj kvs) =
      Inr (?d
        (lit ''score'' \<mapsto>
           JFloat (case py_float str_to_float (the (?d (lit ''score''))) of
                     Inr x \<Rightarrow> py_max (Fin 0) (py_min (Fin 100) x)
                   | Inl e \<Rightarrow> Fin 0),
         lit ''suggestions'' \<mapsto>
           (case the (?d (lit ''suggestions'')) of
              JStr t \<Rightarrow> JArr (map JStr (filter (\<lambda>l. strip l \<noteq> []) (split_nl t)))
            | v \<Rightarrow> v),
         lit ''keywords_matched'' \<mapsto>
           (case ?d (lit ''keywords_matched'') of Some v \<Rightarrow> v | None \<Rightarrow> JArr []),
         lit ''missing_keywords'' \<mapsto>
           (case ?d (lit ''missing_keywords'') of Some v \<Rightarrow> v | None \<Rightarrow> JArr []),
         lit ''status'' \<mapsto> JStr (lit ''success'')))"
    unfolding finish_result_def using p c g by (simp add: Let_def get_default_def)
  then show "optimize_resume loads str_to_float True (Inr response) resume_text =
      Inr (?d
        (lit ''score'' \<mapsto>
           JFloat (case py_float str_to_float (the (?d (lit ''score''))) of
                     Inr x \<Rightarrow> py_max (Fin 0) (py_min (Fin 100) x)
                   | Inl e \<Rightarrow> Fin 0),
         lit ''suggestions'' \<mapsto>
           (case the (?d (lit ''suggestions'')) of
              JStr t \<Rightarrow> JArr (map JStr (filter (\<lambda>l. strip l \<noteq> []) (split_nl t)))
            | v \<Rightarrow> v),
         lit ''keywords_matched'' \<mapsto>
           (case ?d (lit ''keywords_matched'') of Some v \<Rightarrow> v | None \<Rightarrow> JArr []),
         lit ''missing_keywords'' \<mapsto>
           (case ?d (lit ''missing_keywords'') of Some v \<Rightarrow> v | None \<Rightarrow> JArr []),
         lit ''status'' \<mapsto> JStr (lit ''success'')))"
    using optimize_resume_parsed[OF assms, of str_to_float] by simp
next
  show "score_in_range (Some (JFloat
          (case py_float str_to_float (the (dict_of kvs (lit ''score''))) of
             Inr x \<Rightarrow> py_max (Fin 0) (py_min (Fin 100) x)
           | Inl e \<Rightarrow> Fin 0)))"
    using py_clamp_range[of "projr (py_float str_to_float (the (dict_of kvs (lit ''score''))))"]
    by (cases "py_float str_to_float (the (dict_of kvs (lit ''score'')))") auto
qed

text \<open>
  The claim as stated fails: for a resume of 65 characters and a response that parses
  to an object without \<open>score\<close>, \<open>optimize_resume\<close> does not complete the object with
  defaults. It returns the error dictionary, which carries the original resume text and
  not the \<open>optimized_text\<close> of the response.
\<close>

theorem missing_score_counterexample:
  "\<not> too_short plain_resume \<and>
   parse_response example_loads response_no_score =
     Inr (JObj [(lit ''optimized_text'', JStr (lit ''Better resume'')),
                (lit ''suggestions'', JArr [])]) \<and>
   optimize_resume example_loads no_float True (Inr response_no_score) plain_resume =
     Inr (parse_error_result plain_resume (ValueError ''Missing required field in response'')) \<and>
   field (optimize_resume example_loads no_float True (Inr response_no_score) plain_resume)
     (lit ''status'') = Some (JStr (lit ''error'')) \<and>
   field (optimize_resume example_loads no_float True (Inr response_no_score) plain_resume)
     (lit ''optimized_text'') = Some (JStr plain_resume) \<and>
   field (optimize_resume example_loads no_float True (Inr response_no_score) plain_resume)
     (lit ''score'') = Some (JFloat (Fin 0))"
proof -
  have "dict_of [(lit ''optimized_text'', JStr (lit ''Better resume'')), (lit ''suggestions'', JArr [])]
          (lit ''score'') = None"
    by (simp add: dict_of_def lit_def)
  then have "finish_result no_float
      (JObj [(lit ''optimized_text'', JStr (lit ''Better resume'')), (lit ''suggestions'', JArr [])]) =
      Inl (ValueError ''Missing required field in response'')"
    by (intro finish_result_missing) (simp add: required_fields_def)
  then have "optimize_resume example_loads no_float True (Inr response_no_score) plain_resume =
      Inr (parse_error_result plain_resume (ValueError ''Missing required field in response''))"
    using optimize_resume_parsed[OF plain_facts(2) parse_examples(1), of no_float] by simp
  then show ?thesis
    by (simp add: plain_facts parse_examples parse_error_result_fields)
qed

theorem missing_field_rejected_witness:
  "\<not> too_short plain_resume \<and>
   optimize_resume example_loads no_float True (Inr response_no_score) plain_resume =
     Inr (parse_error_result plain_resume (ValueError ''Missing required field in response'')) \<and>
   field (optimize_resume example_loads no_float True (Inr response_full) plain_resume)
     (lit ''score'') = Some (JFloat (Fin 100)) \<and>
   field (optimize_resume example_loads no_float True (Inr response_full) plain_resume)
     (lit ''suggestions'') = Some (JArr [JStr (lit ''Add metrics'')]) \<and>
   field (optimize_resume example_loads no_float True (Inr response_full) plain_resume)
     (lit ''keywords_matched'') = Some (JArr []) \<and>
   field (optimize_resume example_loads no_float True (Inr response_full) plain_resume)
     (lit ''missing_keywords'') = Some (JArr []) \<and>
   field (optimize_resume example_loads no_float True (Inr response_full) plain_resume)
     (lit ''status'') = Some (JStr (lit ''success'')) \<and>
   field (optimize_resume example_loads no_float True (Inr response_full) plain_resume)
     (lit ''optimized_text'') = Some (JStr (lit ''Better resume''))"
proof -
  let ?k0 = "[(lit ''optimized_text'', JStr (lit ''Better resume'')), (lit ''suggestions'', JArr [])]"
  let ?k1 = "[(lit ''optimized_text'', JStr (lit ''Better resume'')), (lit ''score'', JInt 120),
              (lit ''suggestions'', JStr (lit ''Add metrics''))]"
  have d0: "dict_of ?k0 (lit ''score'') = None"
    by (simp add: dict_of_def lit_def)
  have d1: "dict_of ?k1 (lit ''score'') = Some (JInt 120)"
      "dict_of ?k1 (lit ''suggestions'') = Some (JStr (lit ''Add metrics''))"
      "dict_of ?k1 (lit ''optimized_text'') = Some (JStr (lit ''Better resume''))"
      "dict_of ?k1 (lit ''keywords_matched'') = None"
      "dict_of ?k1 (lit ''missing_keywords'') = None"
    by (simp_all add: dict_of_def lit_def)
  have h0: "\<exists>field\<in>set required_fields. dict_of ?k0 field = None"
    using d0 by (simp add: required_fields_def)
  have fl: "py_float no_float (JInt 120) = Inr (Fin 120)"
    by (simp add: py_float_def)
  have sp: "filter (\<lambda>l. strip l \<noteq> []) (split_nl (lit ''Add metrics'')) = [lit ''Add metrics'']"
    by (simp add: lit_def strip_def isspace_def)
  have h1: "(\<forall>field\<in>set required_fields. dict_of ?k1 field \<noteq> None) \<and>
       (\<forall>m. py_float no_float (the (dict_of ?k1 (lit ''score''))) \<noteq> Inl (OverflowError m)) \<and>
       ((\<exists>xs. dict_of ?k1 (lit ''suggestions'') = Some (JArr xs)) \<or>
        (\<exists>t. dict_of ?k1 (lit ''suggestions'') = Some (JStr t)))"
    using d1 fl by (simp add: required_fields_def)
  from missing_field_rejected[OF plain_facts(2) parse_examples(1), of no_float] h0
  have a: "optimize_resume example_loads no_float True (Inr response_no_score) plain_resume =
      Inr (parse_error_result plain_resume (ValueError ''Missing required field in response''))"
    by blast
  from missing_field_rejected[OF plain_facts(2) parse_examples(2), of no_float] h1
  have b: "optimize_resume example_loads no_float True (Inr response_full) plain_resume =
      Inr ((dict_of ?k1)
        (lit ''score'' \<mapsto>
           JFloat (case py_float no_float (the (dict_of ?k1 (lit ''score''))) of
                     Inr x \<Rightarrow> py_max (Fin 0) (py_min (Fin 100) x)
                   | Inl e \<Rightarrow> Fin 0),
         lit ''suggestions'' \<mapsto>
           (case the (dict_of ?k1 (lit ''suggestions'')) of
              JStr t \<Rightarrow> JArr (map JStr (filter (\<lambda>l. strip l \<noteq> []) (split_nl t)))
            | v \<Rightarrow> v),
         lit ''keywords_matched'' \<mapsto>
           (case dict_of ?k1 (lit ''keywords_matched'') of Some v \<Rightarrow> v | None \<Rightarrow> JArr []),
         lit ''missing_keywords'' \<mapsto>
           (case dict_of ?k1 (lit ''missing_keywords'') of Some v \<Rightarrow> v | None \<Rightarrow> JArr []),
         lit ''status'' \<mapsto> JStr (lit ''success'')))"
    by blast
  show ?thesis
    unfolding a b d1 using lit_keys d1(3) fl sp
    by (simp add: plain_facts(2) py_max_def py_min_def)
qed

section \<open>Resume optimisation: results\<close>

lemma valid_error_dicts:
  "valid_result (parse_error_result t e)"
  "valid_result [lit ''status'' \<mapsto> JStr (lit ''error''), lit ''error'' \<mapsto> JStr m,
     lit ''optimized_text'' \<mapsto> JStr t, lit ''score'' \<mapsto> JFloat (Fin 0),
     lit ''suggestions'' \<mapsto> JArr [JStr m]]"
  "valid_result [lit ''optimized_text'' \<mapsto> JStr t, lit ''score'' \<mapsto> JFloat (Fin 0),
     lit ''suggestions'' \<mapsto> JArr [JStr m], lit ''status'' \<mapsto> JStr (lit ''error'')]"
  "valid_result [lit ''optimized_text'' \<mapsto> JStr t, lit ''score'' \<mapsto> JFloat (Fin 0),
     lit ''suggestions'' \<mapsto> JArr [JStr m], lit ''status'' \<mapsto> JStr (lit ''error''),
     lit ''error'' \<mapsto> JStr m']"
  using lit_keys by (simp_all add: valid_result_def parse_error_result_def)

lemma original_error_dicts:
  "original_returned (parse_error_result t e) t"
  "original_returned [lit ''status'' \<mapsto> JStr (lit ''error''), lit ''error'' \<mapsto> JStr m,
     lit ''optimized_text'' \<mapsto> JStr t, lit ''score'' \<mapsto> JFloat (Fin 0),
     lit ''suggestions'' \<mapsto> JArr [JStr m]] t"
  "original_returned [lit ''optimized_text'' \<mapsto> JStr t, lit ''score'' \<mapsto> JFloat (Fin 0),
     lit ''suggestions'' \<mapsto> JArr [JStr m], lit ''status'' \<mapsto> JStr (lit ''error'')] t"
  "original_returned [lit ''optimized_text'' \<mapsto> JStr t, lit ''score'' \<mapsto> JFloat (Fin 0),
     lit ''suggestions'' \<mapsto> JArr [JStr m], lit ''status'' \<mapsto> JStr (lit ''error''),
     lit ''error'' \<mapsto> JStr m'] t"
  using lit_keys by (simp_all add: original_returned_def parse_error_result_def)

lemma valid_finish: "finish_result F parsed = Inr r \<Longrightarrow> valid_result r"
  using finish_result_ok[of F parsed r] by (auto simp: valid_result_def)

lemma valid_interpret: "interpret_response L F t resp = Inr r \<Longrightarrow> valid_result r"
  by (auto simp: interpret_response_def valid_error_dicts valid_finish split: sum.splits if_splits)

lemma interpret_unparsable:
  "parse_response L resp = Inl e \<Longrightarrow> is_Exception e \<Longrightarrow>
     interpret_response L F t resp = Inr (parse_error_result t e)"
  by (simp add: interpret_response_def)

lemma valid_optimize: "optimize_resume L F en rq t = Inr r \<Longrightarrow> valid_result r"
  by (auto simp: optimize_resume_def valid_error_dicts valid_interpret split: sum.splits if_splits)

lemma optimize_error_path:
  assumes "error_path L en rq t"
  shows "\<exists>r. optimize_resume L F en rq t = Inr r \<and> original_returned r t"
proof (cases "too_short t \<or> \<not> en")
  case True
  then show ?thesis by (auto simp: optimize_resume_def original_error_dicts)
next
  case False
  show ?thesis
  proof (cases rq)
    case (Inl e)
    with assms False have "is_Exception e" by (simp add: error_path_def)
    with Inl False show ?thesis
      by (auto simp: optimize_resume_def original_error_dicts)
  next
    case (Inr resp)
    with assms False obtain e where e: "parse_response L resp = Inl e" "is_Exception e"
      by (auto simp: error_path_def split: sum.splits)
    with Inr False show ?thesis
      by (simp add: optimize_resume_def interpret_unparsable original_error_dicts)
  qed
qed

lemma py_clamp_id: "0 \<le> q \<Longrightarrow> q \<le> 100 \<Longrightarrow> py_min (py_max (Fin q) (Fin 0)) (Fin 100) = Fin q"
  by (simp add: py_min_def py_max_def)

lemma optimizer_success_valid:
  assumes "valid_result r"
  shows "\<exists>r'. optimizer_success F r = Inr r' \<and> valid_result r' \<and>
           r' (lit ''score'') = r (lit ''score'') \<and>
           r' (lit ''optimized_text'') = r (lit ''optimized_text'')"
proof -
  from assms obtain q xs ot where
    q: "r (lit ''score'') = Some (JFloat (Fin q))" "0 \<le> q" "q \<le> 100"
    and xs: "r (lit ''suggestions'') = Some (JArr xs)"
    and ot: "r (lit ''optimized_text'') = Some ot"
    by (auto simp: valid_result_def split: option.splits json.splits elim!: score_in_range.elims)
  have "optimizer_success F r =
      Inr [lit ''optimized_text'' \<mapsto> ot, lit ''score'' \<mapsto> JFloat (Fin q),
           lit ''suggestions'' \<mapsto> JArr (take 5 xs), lit ''status'' \<mapsto> JStr (lit ''success'')]"
    using q xs ot
    by (simp add: optimizer_success_def required_fields_def py_float_def slice5_def py_clamp_id)
  then show ?thesis
    using q xs ot lit_keys by (simp add: valid_result_def)
qed

lemma valid_optimizer:
  "optimizer_optimize_resume F (Some (optimize_resume L F' en rq t)) t = Inr r \<Longrightarrow> valid_result r"
proof (cases "optimize_resume L F' en rq t")
  case (Inl e)
  assume "optimizer_optimize_resume F (Some (optimize_resume L F' en rq t)) t = Inr r"
  with Inl show ?thesis
    by (auto simp: optimizer_optimize_resume_def valid_error_dicts split: if_splits)
next
  case (Inr g)
  assume a: "optimizer_optimize_resume F (Some (optimize_resume L F' en rq t)) t = Inr r"
  from optimizer_success_valid[OF valid_optimize[OF Inr], of F]
  obtain r' where r': "optimizer_success F g = Inr r'" "valid_result r'" by blast
  with a Inr show ?thesis
    by (auto simp: optimizer_optimize_resume_def valid_error_dicts split: if_splits)
qed

lemma optimizer_error_path:
  assumes "error_path L en rq t"
  shows "\<exists>r. optimizer_optimize_resume F (Some (optimize_resume L F' en rq t)) t = Inr r \<and>
           original_returned r t"
proof (cases "too_short t")
  case True
  then show ?thesis by (simp add: optimizer_optimize_resume_def original_error_dicts)
next
  case False
  from optimize_error_path[OF assms, of F'] obtain g where
    g: "optimize_resume L F' en rq t = Inr g" "original_returned g t" by blast
  from optimizer_success_valid[OF valid_optimize[OF g(1)], of F]
  obtain r' where r': "optimizer_success F g = Inr r'"
    "r' (lit ''score'') = g (lit ''score'')"
    "r' (lit ''optimized_text'') = g (lit ''optimized_text'')" by blast
  with g False show ?thesis
    by (simp add: optimizer_optimize_resume_def original_returned_def)
qed

lemma optimizer_no_client:
  "\<exists>r. optimizer_optimize_resume F None t = Inr r \<and> valid_result r \<and> original_returned r t"
  by (simp add: optimizer_optimize_resume_def valid_error_dicts original_error_dicts)

text \<open>
  Claim C10, as amended. Every dictionary that \<open>GroqClient.optimize_resume\<close> returns,
  and every dictionary that \<open>ResumeOptimizer.optimize_resume\<close> returns on top of it,
  has a score in the interval from 0 to 100 and the status \<open>success\<close> or \<open>error\<close>. On
  every error path (the input is empty or shorter than 50 characters once leading and
  trailing whitespace is stripped, the client is disabled or missing, the request
  failed, or the response does not parse) a dictionary is returned whose optimised
  text is the input text and whose score is 0.
\<close>

theorem optimize_resume_results:
  "(\<forall>r. optimize_resume loads str_to_float enabled request resume_text = Inr r \<longrightarrow> valid_result r) \<and>
   (error_path loads enabled request resume_text \<longrightarrow>
      (\<exists>r. optimize_resume loads str_to_float enabled request resume_text = Inr r \<and>
           original_returned r resume_text)) \<and>
   (\<forall>r. optimizer_optimize_resume str_to_float
           (Some (optimize_resume loads str_to_float enabled request resume_text)) resume_text = Inr r
        \<longrightarrow> valid_result r) \<and>
   (error_path loads enabled request resume_text \<longrightarrow>
      (\<exists>r. optimizer_optimize_resume str_to_float
              (Some (optimize_resume loads str_to_float enabled request resume_text)) resume_text = Inr r \<and>
           original_returned r resume_text)) \<and>
   (\<exists>r. optimizer_optimize_resume str_to_float None resume_text = Inr r \<and>
        valid_result r \<and> original_returned r resume_text)"
proof (intro conjI allI impI)
  fix r
  assume "optimize_resume loads str_to_float enabled request resume_text = Inr r"
  then show "valid_result r" by (rule valid_optimize)
next
  assume "error_path loads enabled request resume_text"
  then show "\<exists>r. optimize_resume loads str_to_float enabled request resume_text = Inr r \<and>
           original_returned r resume_text"
    by (rule optimize_error_path)
next
  fix r
  assume "optimizer_optimize_resume str_to_float
           (Some (optimize_resume loads str_to_float enabled request resume_text)) resume_text = Inr r"
  then show "valid_result r" by (rule valid_optimizer)
next
  assume "error_path loads enabled request resume_text"
  then show "\<exists>r. optimizer_optimize_resume str_to_float
              (Some (optimize_resume loads str_to_float enabled request resume_text)) resume_text = Inr r \<and>
           original_returned r resume_text"
    by (rule optimizer_error_path)
next
  show "\<exists>r. optimizer_optimize_resume str_to_float None resume_text = Inr r \<and>
        valid_result r \<and> original_returned r resume_text"
    by (rule optimizer_no_client)
qed

lemma sparse_facts: "non_ws_count sparse_resume = 2" "\<not> too_short sparse_resume"
proof -
  show "non_ws_count sparse_resume = 2"
    by (simp add: non_ws_count_def sparse_resume_def isspace_def)
  have "\<not> isspace 98" "\<not> isspace 97" by (simp_all add: isspace_def)
  then have "strip sparse_resume = sparse_resume"
    using rstrip_snoc[of 98 "97 # replicate 49 32"]
    by (simp add: strip_def sparse_resume_def)
  then show "\<not> too_short sparse_resume"
    by (simp add: too_short_def) (simp add: sparse_resume_def)
qed

text \<open>
  The claim as stated counts an input with fewer than 50 non-whitespace characters as
  an error path. The guard measures the stripped length instead: a text of two letters
  with 49 spaces between them passes it, and with a complete response the result is a
  success with the text of the response.
\<close>

theorem sparse_resume_counterexample:
  "non_ws_count sparse_resume < 50 \<and>
   field (optimize_resume example_loads no_float True (Inr response_full) sparse_resume)
     (lit ''optimized_text'') = Some (JStr (lit ''Better resume'')) \<and>
   sparse_resume \<noteq> lit ''Better resume'' \<and>
   field (optimize_resume example_loads no_float True (Inr response_full) sparse_resume)
     (lit ''score'') = Some (JFloat (Fin 100)) \<and>
   field (optimize_resume example_loads no_float True (Inr response_full) sparse_resume)
     (lit ''status'') = Some (JStr (lit ''success''))"
proof -
  let ?k = "[(lit ''optimized_text'', JStr (lit ''Better resume'')), (lit ''score'', JInt 120),
             (lit ''suggestions'', JStr (lit ''Add metrics''))]"
  have d: "dict_of ?k (lit ''score'') = Some (JInt 120)"
      "dict_of ?k (lit ''suggestions'') = Some (JStr (lit ''Add metrics''))"
      "dict_of ?k (lit ''optimized_text'') = Some (JStr (lit ''Better resume''))"
    by (simp_all add: dict_of_def lit_def)
  have c: "clamp_score no_float (JInt 120) = Inr (Fin 100)"
    by (simp add: clamp_score_def py_float_def py_max_def py_min_def)
  have g: "list_suggestions (JStr (lit ''Add metrics'')) = Inr (JArr [JStr (lit ''Add metrics'')])"
    by (simp add: list_suggestions_def lit_def strip_def isspace_def)
  have f: "finish_result no_float (JObj ?k) =
      Inr ((dict_of ?k)(lit ''score'' \<mapsto> JFloat (Fin 100),
         lit ''suggestions'' \<mapsto> JArr [JStr (lit ''Add metrics'')],
         lit ''keywords_matched'' \<mapsto> get_default (dict_of ?k) (lit ''keywords_matched'') (JArr []),
         lit ''missing_keywords'' \<mapsto> get_default (dict_of ?k) (lit ''missing_keywords'') (JArr []),
         lit ''status'' \<mapsto> JStr (lit ''success'')))"
    unfolding finish_result_def using d c g by (simp add: required_fields_def Let_def)
  have o: "optimize_resume example_loads no_float True (Inr response_full) sparse_resume =
      finish_result no_float (JObj ?k)"
    using sparse_facts(2) by (simp add: optimize_resume_def interpret_response_def parse_examples f)
  have n: "sparse_resume \<noteq> lit ''Better resume''"
    by (simp add: sparse_resume_def lit_def)
  show ?thesis
    unfolding o f using d(3) lit_keys n by (simp add: sparse_facts(1))
qed

theorem optimize_resume_results_witness:
  "error_path example_loads True (Inl TimeoutError) sparse_resume \<and>
   field (optimize_resume example_loads no_float True (Inl TimeoutError) sparse_resume)
     (lit ''optimized_text'') = Some (JStr sparse_resume) \<and>
   field (optimize_resume example_loads no_float True (Inl TimeoutError) sparse_resume)
     (lit ''score'') = Some (JFloat (Fin 0)) \<and>
   field (optimizer_optimize_resume no_float
            (Some (optimize_resume example_loads no_float True (Inl TimeoutError) sparse_resume))
            sparse_resume) (lit ''optimized_text'') = Some (JStr sparse_resume) \<and>
   field (optimizer_optimize_resume no_float
            (Some (optimize_resume example_loads no_float True (Inl TimeoutError) sparse_resume))
            sparse_resume) (lit ''score'') = Some (JFloat (Fin 0))"
proof -
  have e: "error_path example_loads True (Inl TimeoutError) sparse_resume"
    by (simp add: error_path_def)
  from optimize_resume_results[of example_loads no_float True "Inl TimeoutError" sparse_resume] e
  show ?thesis by (auto simp: original_returned_def)
qed

section \<open>Fallback synthesizer: empty work experience\<close>

lemma split_nl_line: "10 \<notin> set l \<Longrightarrow> split_nl (l @ 10 # rest) = l # split_nl rest"
  by (induction l) simp_all

lemma split_nl_last: "10 \<notin> set l \<Longrightarrow> split_nl l = [l]"
  by (induction l) simp_all

text \<open>Every exception of the body is an \<open>Exception\<close>, so the handler catches it.\<close>

lemma iadd_Exception: "iadd v t = Inl e \<Longrightarrow> is_Exception e"
  by (auto simp: iadd_def split: pyval.splits)

lemma collect_Exception:
  assumes "\<And>x e. f x = Inl e \<Longrightarrow> is_Exception e" and "collect f xs = Inl e"
  shows "is_Exception e"
  using assms(2)
proof (induction xs)
  case Nil
  then show ?case by simp
next
  case (Cons x xs)
  then show ?case using assms(1)[of x] by (auto split: sum.splits)
qed

lemma job_lines_Exception: "job_lines j = Inl e \<Longrightarrow> is_Exception e"
  by (auto simp: job_lines_def job_dates_def Let_def dest: iadd_Exception
      split: sum.splits option.splits if_splits)

lemma edu_lines_Exception: "edu_lines j = Inl e \<Longrightarrow> is_Exception e"
  by (auto simp: edu_lines_def edu_dates_def Let_def dest: iadd_Exception
      split: sum.splits option.splits cell.splits)

lemma fallback_body_Exception:
  assumes "fallback_body cv = Inl e"
  shows "is_Exception e"
proof -
  have w: "\<And>ws e. work_lines ws = Inl e \<Longrightarrow> is_Exception e"
    using collect_Exception[of job_lines] job_lines_Exception
    by (auto simp: work_lines_def split: if_splits sum.splits)
  have d: "\<And>es e. education_lines es = Inl e \<Longrightarrow> is_Exception e"
    using collect_Exception[of edu_lines] edu_lines_Exception
    by (auto simp: education_lines_def split: if_splits sum.splits)
  from assms show ?thesis
    by (auto simp: fallback_body_def personal_of_def str_join_nl_def dest: w d
        split: sum.splits cell.splits if_splits)
qed

text \<open>
  The synthesizer does not raise. What it returns for an input whose \<open>summary\<close> is
  \<open>None\<close> is the error document, whatever the other fields are.
\<close>

lemma generate_fallback_cv_returns: "\<exists>doc. generate_fallback_cv cv = Inr doc"
  using fallback_body_Exception[of cv]
  by (cases "fallback_body cv") (simp_all add: generate_fallback_cv_def)

lemma fallback_null_summary:
  assumes "personal cv = Val p" "summary p = Null"
  shows "generate_fallback_cv cv = Inr error_document"
proof -
  have "PyNone \<in> set (summary_lines p)"
    using assms(2) by (simp add: summary_lines_def get_or_def)
  then have "\<exists>e. fallback_body cv = Inl e"
    using assms(1)
    by (auto simp: fallback_body_def personal_of_def str_join_nl_def split: sum.splits)
  then obtain e where e: "fallback_body cv = Inl e" by blast
  with fallback_body_Exception[OF e] show ?thesis
    by (simp add: generate_fallback_cv_def)
qed

lemma jane_body:
  "fallback_body jane_cv = Inr jane_document"
  by (simp add: fallback_body_def jane_cv_def mit_edu_def personal_of_def work_of_def
      education_of_def header_lines_def summary_lines_def work_lines_def education_lines_def
      edu_lines_def edu_dates_def skills_lines_def get_or_def truthy_val_def fmt_def iadd_def
      str_join_nl_def jane_document_def lit_def)

lemma jane_document_lines:
  "split_nl jane_document =
     [lit ''# Jane Doe'', lit ''jane@mit.edu | 555'', [], lit ''## Summary'', lit ''Data engineer'',
      [], lit ''## Education'', [], lit ''### BSc'', lit ''MIT'', lit ''*2015 to 2019 | GPA: 3.9*'',
      [], lit ''## Skills'', lit ''Python, SQL'']"
proof -
  have n: "10 \<notin> set (lit ''# Jane Doe'')" "10 \<notin> set (lit ''jane@mit.edu | 555'')"
      "10 \<notin> set (lit ''## Summary'')" "10 \<notin> set (lit ''Data engineer'')"
      "10 \<notin> set (lit ''## Education'')" "10 \<notin> set (lit ''### BSc'')" "10 \<notin> set (lit ''MIT'')"
      "10 \<notin> set (lit ''*2015 to 2019 | GPA: 3.9*'')" "10 \<notin> set (lit ''## Skills'')"
      "10 \<notin> set (lit ''Python, SQL'')"
    by (simp_all add: lit_def)
  have e: "\<And>rest. split_nl (10 # rest) = [] # split_nl rest" by simp
  show ?thesis
    unfolding jane_document_def
    by (simp add: split_nl_line split_nl_last n e del: split_nl.simps)
qed

lemma jane_document_headings:
  "h2_headings jane_document = [lit ''Summary'', lit ''Education'', lit ''Skills'']"
  "bullet_items jane_document = []"
proof -
  have h: "\<not> is_h2 (lit ''# Jane Doe'')" "\<not> is_h2 (lit ''jane@mit.edu | 555'')" "\<not> is_h2 []"
      "is_h2 (lit ''## Summary'')" "\<not> is_h2 (lit ''Data engineer'')" "is_h2 (lit ''## Education'')"
      "\<not> is_h2 (lit ''### BSc'')" "\<not> is_h2 (lit ''MIT'')"
      "\<not> is_h2 (lit ''*2015 to 2019 | GPA: 3.9*'')"
      "is_h2 (lit ''## Skills'')" "\<not> is_h2 (lit ''Python, SQL'')"
    by (simp_all add: is_h2_def lit_def strip_def isspace_def startswith_def)
  have b: "\<not> is_bullet (lit ''# Jane Doe'')" "\<not> is_bullet (lit ''jane@mit.edu | 555'')" "\<not> is_bullet []"
      "\<not> is_bullet (lit ''## Summary'')" "\<not> is_bullet (lit ''Data engineer'')"
      "\<not> is_bullet (lit ''## Education'')"
      "\<not> is_bullet (lit ''### BSc'')" "\<not> is_bullet (lit ''MIT'')"
      "\<not> is_bullet (lit ''*2015 to 2019 | GPA: 3.9*'')"
      "\<not> is_bullet (lit ''## Skills'')" "\<not> is_bullet (lit ''Python, SQL'')"
    by (simp_all add: is_bullet_def lit_def strip_def isspace_def startswith_def)
  have d: "drop 3 (strip (lit ''## Summary'')) = lit ''Summary''"
      "drop 3 (strip (lit ''## Education'')) = lit ''Education''"
      "drop 3 (strip (lit ''## Skills'')) = lit ''Skills''"
    by (simp_all add: lit_def strip_def isspace_def)
  show "h2_headings jane_document = [lit ''Summary'', lit ''Education'', lit ''Skills'']"
    unfolding h2_headings_def jane_document_lines using h d by simp
  show "bullet_items jane_document = []"
    unfolding bullet_items_def jane_document_lines using b by simp
qed

lemma error_document_headings: "h2_headings error_document = []"
proof -
  have n: "10 \<notin> set (lit ''# CV Generation Error'')"
      "10 \<notin> set (lit ''Unable to generate CV. Please try again later or check your input data.'')"
    by (simp_all add: lit_def)
  have e: "\<And>rest. split_nl (10 # rest) = [] # split_nl rest" by simp
  have s: "split_nl error_document =
      [lit ''# CV Generation Error'', [],
       lit ''Unable to generate CV. Please try again later or check your input data.'']"
    unfolding error_document_def
    by (simp add: split_nl_line split_nl_last n e del: split_nl.simps)
  have h: "\<not> is_h2 (lit ''# CV Generation Error'')" "\<not> is_h2 []"
    by (simp_all add: is_h2_def lit_def strip_def isspace_def startswith_def)
  have "\<not> isspace 85" by (simp add: isspace_def)
  then have "strip (lit ''Unable to generate CV. Please try again later or check your input data.'')
      = 85 # rstrip (lit ''nable to generate CV. Please try again later or check your input data.'')"
    by (simp add: strip_def lit_def)
  then have "\<not> is_h2 (lit ''Unable to generate CV. Please try again later or check your input data.'')"
    by (simp add: is_h2_def startswith_def lit_def)
  with h show ?thesis unfolding h2_headings_def s by simp
qed

text \<open>
  Claim C7 does not hold of \<open>_generate_fallback_cv\<close>. The claim expects, for an input
  with an empty \<open>work_experience\<close> list, a document with the Experience heading and no
  bullet items under it, and absent fields rendered as empty sections, not as errors.
  For \<open>jane_cv\<close> the synthesizer returns a document whose level-2 headings are Summary,
  Education and Skills: \<open>if work_exp:\<close> drops the heading with the section. For
  \<open>request_cv\<close>, where the optional \<open>summary\<close> was not given and is \<open>None\<close>, joining
  the lines raises and the handler returns the error document, which has no section at
  all.
\<close>

theorem fallback_empty_work_experience:
  "work_experience jane_cv = Val [] \<and>
   generate_fallback_cv jane_cv = Inr jane_document \<and>
   h2_headings jane_document = [lit ''Summary'', lit ''Education'', lit ''Skills''] \<and>
   bullet_items jane_document = [] \<and>
   work_experience request_cv = Val [] \<and>
   generate_fallback_cv request_cv = Inr error_document \<and>
   h2_headings error_document = []"
proof -
  have a: "work_experience jane_cv = Val []" "work_experience request_cv = Val []"
    by (simp_all add: jane_cv_def request_cv_def)
  have b: "generate_fallback_cv jane_cv = Inr jane_document"
    by (simp add: generate_fallback_cv_def jane_body)
  have "PyNone \<in> set (summary_lines \<lparr>name = Val (lit ''Jane Doe''),
      email = Val (lit ''jane@mit.edu''), phone = Null, linkedin = Null, github = Null,
      location = Null, summary = Null\<rparr>)"
    by (simp add: summary_lines_def get_or_def)
  then have "fallback_body request_cv =
      Inl (TypeError ''sequence item: expected str instance, NoneType found'')"
    by (simp add: fallback_body_def request_cv_def mit_edu_def personal_of_def work_of_def
        education_of_def work_lines_def education_lines_def edu_lines_def edu_dates_def
        get_or_def truthy_val_def iadd_def str_join_nl_def)
  then have c: "generate_fallback_cv request_cv = Inr error_document"
    by (simp add: generate_fallback_cv_def)
  show ?thesis
    using a b c jane_document_headings error_document_headings by simp
qed

section \<open>PDF extraction: the two implementations\<close>

text \<open>
  Claim C9. PDF extraction goes page by page and joins the page texts with newlines; a
  page whose extraction raises is skipped, and the extraction fails with an explicit
  error exactly when no page yields text. \<open>ResumeProcessor._extract_text_from_pdf\<close>
  does this (the three lemmas after the theorem). \<open>extract_text_from_pdf\<close> of
  resume_parser.py does not: on a document whose first page raises it gives up and
  returns \<open>None\<close> although the second page has text, and on a document none of whose
  pages has text it returns the empty text instead of failing.
\<close>

theorem parser_pdf_divergence:
  "parser_extract_text_from_pdf True [PageRaises (PyException ''damaged page''), PageText (lit ''Hello'')] = None \<and>
   processor_extract_text_from_pdf [PageRaises (PyException ''damaged page''), PageText (lit ''Hello'')] =
     Inr (lit ''Hello'') \<and>
   parser_extract_text_from_pdf True [PageText [], PageText []] = Some [] \<and>
   processor_extract_text_from_pdf [PageText [], PageText []] =
     Inl (ValueError ''No text could be extracted from the PDF'')"
  by (simp add: parser_extract_text_from_pdf_def processor_extract_text_from_pdf_def strip_def isspace_def lit_def)

lemma collect_pages_texts:
  "collect_pages pages =
     filter (\<lambda>t. t \<noteq> []) (concat (map (\<lambda>p. case p of PageText t \<Rightarrow> [t] | PageRaises e \<Rightarrow> []) pages))"
  by (induction pages rule: collect_pages.induct) simp_all

lemma processor_extract_fails_iff:
  "(\<exists>e. processor_extract_text_from_pdf pages = Inl e) \<longleftrightarrow>
     (\<forall>p\<in>set pages. case p of PageText t \<Rightarrow> t = [] | PageRaises e \<Rightarrow> True)"
proof -
  have "collect_pages pages = [] \<longleftrightarrow>
      (\<forall>p\<in>set pages. case p of PageText t \<Rightarrow> t = [] | PageRaises e \<Rightarrow> True)"
    by (induction pages rule: collect_pages.induct) simp_all
  then show ?thesis by (auto simp: processor_extract_text_from_pdf_def Let_def)
qed

lemma processor_extract_joins:
  "processor_extract_text_from_pdf pages = Inr text \<Longrightarrow> text = join_nl (collect_pages pages)"
  by (auto simp: processor_extract_text_from_pdf_def Let_def split: if_splits)

section \<open>Rendering: fallback and empty output\<close>

text \<open>
  Claim C8. When rendering to DOCX or PDF raises, the markdown of the same document is
  written before giving up, and a render whose output file is missing or empty is a
  failure, never a returned artifact. The requested format is checked so (the two
  lemmas after the theorem); the markdown fallback is not: with an empty markdown
  content and a DOCX render that raises, the path of a markdown file of zero bytes is
  returned, and the \<open>finally\<close> clause has removed that file.
\<close>

theorem render_fallback_empty_file:
  "render_cv Docx [] \<lparr>render = Inl (PyException ''Package not found''), md_write = None,
                       fallback_write = None\<rparr> =
     Inr \<lparr>art_format = Md, byte_size = 0, removed = True\<rparr>"
  by (simp add: render_cv_def primary_render_def utf8_len_def)

lemma render_fallback_attempted:
  assumes "output_format \<noteq> Md" "render env = Inl e" "is_Exception e" "fallback_write env = None"
  shows "render_cv output_format markdown_content env =
           Inr \<lparr>art_format = Md, byte_size = utf8_len markdown_content,
                removed = (utf8_len markdown_content = 0)\<rparr>"
  using assms by (cases output_format) (simp_all add: render_cv_def primary_render_def)

lemma render_requested_not_empty:
  assumes "render_cv output_format markdown_content env = Inr a" "art_format a \<noteq> Md \<or> output_format = Md"
  shows "0 < byte_size a \<and> art_format a = output_format"
  using assms
  by (auto simp: render_cv_def primary_render_def split: sum.splits option.splits if_splits format.splits)

end
